theory Spec2Isabelle
  imports Complex_Main "HOL-Library.Multiset" "HOL-Library.AList" "HOL-Library.Char_ord" "HOL-Library.List_Lexorder"
begin

section \<open>Python values shared by the modules\<close>

text \<open>
  Exceptions that the modelled functions let escape. A \<open>KeyError\<close> is what a
  dictionary subscript raises on a missing key, an \<open>IndexError\<close> what a list subscript
  raises out of range.
\<close>

datatype py_error = KeyError | IndexError

section \<open>Detox policy (lib/detox/policy.py)\<close>

datatype decision = DEC_DELETE | DEC_KEEP | DEC_PROTECT

text \<open>
  A rule is a callable \<open>rule(replica, demand_manager)\<close> that returns \<open>None\<close> or a
  triple \<open>(replica, decision, reason)\<close>.
\<close>

type_synonym ('r, 'dm) rule = "'r \<Rightarrow> 'dm \<Rightarrow> ('r \<times> decision \<times> string) option"

record ('r, 'dm) policy =
  default_decision :: decision
  rules :: "('r, 'dm) rule list"

text \<open>
  The \<open>for rule in self.rules\<close> loop of \<open>Policy.evaluate\<close>, started at the rule with
  index \<open>k\<close>. Besides the value of \<open>result\<close> at the \<open>break\<close> (\<open>None\<close> when the loop
  runs to its \<open>else\<close>), it returns the indices of the rules that were called, in call
  order.
\<close>

fun evaluate_rules ::
  "nat \<Rightarrow> ('r, 'dm) rule list \<Rightarrow> 'r \<Rightarrow> 'dm \<Rightarrow> ('r \<times> decision \<times> string) option \<times> nat list" where
  "evaluate_rules k [] replica demand_manager = (None, [])"
| "evaluate_rules k (rule # rest) replica demand_manager =
     (case rule replica demand_manager of
        Some result \<Rightarrow> (Some result, [k])
      | None \<Rightarrow>
          (case evaluate_rules (Suc k) rest replica demand_manager of
             (res, called) \<Rightarrow> (res, k # called)))"

definition evaluate ::
  "('r, 'dm) policy \<Rightarrow> 'r \<Rightarrow> 'dm \<Rightarrow> ('r \<times> decision \<times> string) \<times> nat list" where
  "evaluate self replica demand_manager =
     (case evaluate_rules 0 (rules self) replica demand_manager of
        (None, called) \<Rightarrow> ((replica, default_decision self, ''Policy default''), called)
      | (Some result, called) \<Rightarrow> (result, called))"

text \<open>
  Replicas as \<open>sort_deletion_candidates\<close> sees them: the dataset (by its unique name)
  and the site. \<open>demands.dataset_demands\<close> is a dictionary from datasets to demand
  objects, of which only \<open>global_usage_rank\<close> is read.
\<close>

record replica =
  r_dataset :: string
  r_site :: string

record dataset_demand =
  global_usage_rank :: real

type_synonym demands = "string \<rightharpoonup> dataset_demand"

definition rank_of :: "demands \<Rightarrow> replica \<Rightarrow> real" where
  "rank_of dataset_demands r = global_usage_rank (the (dataset_demands (r_dataset r)))"

text \<open>
  \<open>sorted(replicas, key = ..., reverse = True)\<close>. Python's sort is stable, and with
  \<open>reverse = True\<close> it still keeps elements with equal keys in their input order: the
  list is reversed, sorted in ascending order and reversed again. The key function
  subscripts \<open>dataset_demands\<close>, so a replica whose dataset has no entry raises
  \<open>KeyError\<close>.
\<close>

definition sort_deletion_candidates :: "replica list \<Rightarrow> demands \<Rightarrow> py_error + replica list" where
  "sort_deletion_candidates replicas dataset_demands =
     (if list_all (\<lambda>r. dataset_demands (r_dataset r) \<noteq> None) replicas
      then Inr (rev (sort_key (rank_of dataset_demands) (rev replicas)))
      else Inl KeyError)"

section \<open>REST client (lib/common/interface/webservice.py)\<close>

text \<open>
  \<open>sys.exc_info()[:2]\<close>: the class of the exception that was caught and its value,
  kept here as the class name and the message.
\<close>

type_synonym exc_info = "string \<times> string"

text \<open>The two \<open>logger.error\<close> calls made when the attempts are exhausted.\<close>

datatype log_record = LogError string | LogErrorExceptions "exc_info list"

text \<open>
  The body of the \<open>try\<close> block of \<open>make_request\<close> for one attempt. \<open>response\<close> is what
  \<open>opener.open(request)\<close> followed by \<open>response.read()\<close> does in this attempt: it
  raises, or yields the content. With \<open>accept = 'application/json'\<close> the content is
  decoded by \<open>json.loads\<close> and normalised by \<open>unicode2str\<close> (both taken together as
  \<open>json_loads\<close>, which may raise). With any other \<open>accept\<close> nothing is assigned to
  \<open>result\<close>, so \<open>return result\<close> raises \<open>UnboundLocalError\<close>, which the bare
  \<open>except\<close> catches like any other exception.
\<close>

definition attempt ::
  "string \<Rightarrow> (string \<Rightarrow> exc_info + 'b) \<Rightarrow> exc_info + string \<Rightarrow> exc_info + 'b" where
  "attempt accept json_loads response =
     (case response of
        Inl e \<Rightarrow> Inl e
      | Inr content \<Rightarrow>
          if accept = ''application/json'' then json_loads content
          else Inl (''UnboundLocalError'', ''local variable result referenced before assignment''))"

text \<open>
  The loop \<open>while len(exceptions) != config.webservice.num_attempts\<close>. \<open>try_k j\<close> is
  the outcome of the \<open>try\<close> block in the iteration entered with \<open>j\<close> recorded
  exceptions. The loop returns from inside the \<open>try\<close> on success, appends to
  \<open>exceptions\<close> on any exception, and its \<open>else\<close> branch logs and raises
  \<open>RuntimeError('webservice too many attempts')\<close>. The result holds the number of
  iterations made, the error log, and the value returned or the exception raised.
  \<open>num_attempts\<close> is a Python integer; for a negative value the loop condition never
  becomes false, so the function is partial.
\<close>

partial_function (option) request_loop ::
  "int \<Rightarrow> (nat \<Rightarrow> exc_info + 'b) \<Rightarrow> exc_info list
   \<Rightarrow> (nat \<times> log_record list \<times> (exc_info + 'b)) option" where
  "request_loop num_attempts try_k exceptions =
     (if int (length exceptions) \<noteq> num_attempts then
        (case try_k (length exceptions) of
           Inr result \<Rightarrow> Some (Suc (length exceptions), [], Inr result)
         | Inl e \<Rightarrow> request_loop num_attempts try_k (exceptions @ [e]))
      else
        Some (length exceptions,
              [LogError ''Too many failed attempts in webservice'', LogErrorExceptions exceptions],
              Inl (''RuntimeError'', ''webservice too many attempts'')))"

definition make_request ::
  "int \<Rightarrow> string \<Rightarrow> (string \<Rightarrow> exc_info + 'b) \<Rightarrow> (nat \<Rightarrow> exc_info + string)
   \<Rightarrow> (nat \<times> log_record list \<times> (exc_info + 'b)) option" where
  "make_request num_attempts accept json_loads server =
     request_loop num_attempts (\<lambda>j. attempt accept json_loads (server j)) []"

text \<open>
  A scripted server for concrete runs: the \<open>j\<close>-th request gets the \<open>j\<close>-th outcome of
  the list, and the connection is refused once the list is used up.
\<close>

definition scripted_server :: "(exc_info + string) list \<Rightarrow> nat \<Rightarrow> exc_info + string" where
  "scripted_server outcomes j =
     (if j < length outcomes then outcomes ! j else Inl (''URLError'', ''Connection refused''))"

definition http_500 :: "exc_info + string" where
  "http_500 = Inl (''HTTPError'', ''HTTP Error 500: Internal Server Error'')"

section \<open>Replica catalog adapter (lib/common/interface/phedexdbsssb.py)\<close>

subsection \<open>Objects of the inventory and entries of the catalog's answers\<close>

text \<open>
  Only the attributes that the modelled code reads or writes are kept. The classes
  themselves (\<open>common.dataformat\<close>) are not among the sources: a \<open>Group\<close> is given by
  its name, which is \<open>None\<close> for the anonymous group, and a \<open>DatasetReplica\<close> built
  without a \<open>group\<close> argument has \<open>group = None\<close>. Sites and datasets are referred to
  by their unique names.
\<close>

record group =
  g_name :: "string option"

record site_obj =
  s_name :: string
  s_group_quota :: "(string \<times> int) list"

record block =
  b_name :: string
  b_size :: int

record block_replica =
  br_block :: block
  br_site :: string
  br_group :: "group option"
  br_is_complete :: bool
  br_is_custodial :: bool
  br_size :: int

record dataset_replica =
  dr_dataset :: string
  dr_site :: string
  dr_group :: "group option"
  dr_is_complete :: bool
  dr_is_partial :: bool
  dr_is_custodial :: bool
  dr_last_block_created :: int
  dr_block_replicas :: "block_replica list"

text \<open>One element of \<open>block_entry['replica']\<close> in the answer to \<open>blockreplicas\<close>.\<close>

record replica_entry =
  re_group :: "string option"
  re_node :: string
  re_time_update :: int
  re_complete :: string
  re_custodial :: string
  re_bytes :: int

text \<open>
  The \<open>*\<close> and \<open>?\<close> fragment of \<open>fnmatch.fnmatch(name, pat)\<close>, for concrete runs. The
  adapter's functions take the matcher as a parameter.
\<close>

fun glob_match :: "string \<Rightarrow> string \<Rightarrow> bool" where
  "glob_match [] [] = True"
| "glob_match (c # cs) [] = False"
| "glob_match [] (p # ps) = (p = CHR ''*'' \<and> glob_match [] ps)"
| "glob_match (c # cs) (p # ps) =
     (if p = CHR ''*'' then glob_match (c # cs) ps \<or> glob_match cs (p # ps)
      else (p = CHR ''?'' \<or> p = c) \<and> glob_match cs ps)"

text \<open>
  \<open>all_sites\<close>, \<open>all_groups\<close> and \<open>gname_list\<close> of \<open>make_replica_links\<close>. The
  dictionaries \<open>sites\<close> and \<open>groups\<close> are lists of (key, object) pairs with distinct
  keys, in the order \<open>items()\<close> yields them.
\<close>

definition all_sites_of ::
  "(string \<Rightarrow> string \<Rightarrow> bool) \<Rightarrow> (string \<times> site_obj) list \<Rightarrow> string \<Rightarrow> site_obj list" where
  "all_sites_of fnmatch sites site_filt =
     map snd (filter (\<lambda>(name, site). fnmatch name site_filt) sites)"

definition all_groups_of ::
  "(string \<Rightarrow> string \<Rightarrow> bool) \<Rightarrow> (string \<times> group) list \<Rightarrow> string \<Rightarrow> group list" where
  "all_groups_of fnmatch groups group_filt =
     map snd (filter (\<lambda>(name, group). fnmatch name group_filt) groups)"

definition gname_list_of ::
  "(string \<Rightarrow> string \<Rightarrow> bool) \<Rightarrow> (string \<times> group) list \<Rightarrow> string \<Rightarrow> string option list" where
  "gname_list_of fnmatch groups group_filt = map g_name (all_groups_of fnmatch groups group_filt)"

subsection \<open>The second pass of \<open>exec_get\<close>: building replicas\<close>

text \<open>
  The state of the loop over \<open>block_entry['replica']\<close>: the dictionary
  \<open>dataset_replicas\<close> local to the current dataset, kept in insertion order (the order
  in which its values are appended to \<open>new_replicas\<close>) and keyed by site name, and
  the warnings logged so far, each with the group name and the block name it reports.
\<close>

record pass2_state =
  dataset_replicas :: "(string \<times> dataset_replica) list"
  warnings :: "(string \<times> string) list"

definition new_dataset_replica :: "string \<Rightarrow> string \<Rightarrow> dataset_replica" where
  "new_dataset_replica ds_name site_name =
     \<lparr>dr_dataset = ds_name, dr_site = site_name, dr_group = None, dr_is_complete = True,
      dr_is_partial = False, dr_is_custodial = False, dr_last_block_created = 0,
      dr_block_replicas = []\<rparr>"

text \<open>
  The body of \<open>for replica_entry in block_entry['replica']\<close>. An entry whose group
  name is not in \<open>gname_list\<close> is skipped by the first \<open>continue\<close>. Otherwise the group
  is looked up in \<open>groups\<close>; a \<open>KeyError\<close> there is caught, logs a warning and leaves
  \<open>group = None\<close>. \<open>sites[replica_entry['node']]\<close> is not guarded, so an unknown node
  raises \<open>KeyError\<close> out of the function; the result is then the exception alone.
\<close>

definition process_replica_entry ::
  "(string \<times> site_obj) list \<Rightarrow> (string \<times> group) list \<Rightarrow> string option list \<Rightarrow> string \<Rightarrow> block
   \<Rightarrow> pass2_state \<Rightarrow> replica_entry \<Rightarrow> py_error + pass2_state" where
  "process_replica_entry sites groups gname_list ds_name blk st replica_entry =
     (if re_group replica_entry \<notin> set gname_list then Inr st
      else
        let (grp, warned) =
              (case re_group replica_entry of
                 Some gname \<Rightarrow>
                   (case map_of groups gname of
                      Some g \<Rightarrow> (Some g, [])
                    | None \<Rightarrow> (None, [(gname, b_name blk)]))
               | None \<Rightarrow> (None, []))
        in
        case map_of sites (re_node replica_entry) of
          None \<Rightarrow> Inl KeyError
        | Some site \<Rightarrow>
            let dataset_replica =
                  (case map_of (dataset_replicas st) (s_name site) of
                     Some dr \<Rightarrow> dr
                   | None \<Rightarrow> new_dataset_replica ds_name (s_name site));
                dataset_replica =
                  (if re_time_update replica_entry > dr_last_block_created dataset_replica
                   then dataset_replica\<lparr>dr_last_block_created := re_time_update replica_entry\<rparr>
                   else dataset_replica);
                is_complete = (re_complete replica_entry = ''y''
                               \<or> re_bytes replica_entry < b_size blk);
                is_custodial = (re_custodial replica_entry = ''y'');
                dataset_replica =
                  (if \<not> is_complete then dataset_replica\<lparr>dr_is_complete := False\<rparr>
                   else dataset_replica);
                dataset_replica =
                  (if is_custodial then dataset_replica\<lparr>dr_is_custodial := True\<rparr>
                   else dataset_replica);
                block_replica =
                  \<lparr>br_block = blk, br_site = s_name site, br_group = grp,
                   br_is_complete = is_complete, br_is_custodial = is_custodial,
                   br_size = re_bytes replica_entry\<rparr>;
                dataset_replica =
                  dataset_replica\<lparr>dr_block_replicas :=
                                     dr_block_replicas dataset_replica @ [block_replica]\<rparr>
            in Inr \<lparr>dataset_replicas =
                       AList.update (s_name site) dataset_replica (dataset_replicas st),
                     warnings = warnings st @ warned\<rparr>)"


subsection \<open>Merging the group information after the queries\<close>

text \<open>
  The loop \<open>for block_replica in replica.block_replicas\<close> at the end of
  \<open>make_replica_links\<close>, as a function of the current \<open>replica.group\<close>. \<open>None\<close> is
  both the value of a group that has not been set and the null owner; the \<open>break\<close>
  ends the loop with \<open>None\<close>.
\<close>

fun merge_group :: "group option \<Rightarrow> block_replica list \<Rightarrow> group option" where
  "merge_group grp [] = grp"
| "merge_group grp (block_replica # rest) =
     (if grp = None then merge_group (br_group block_replica) rest
      else if br_group block_replica \<noteq> grp then None
      else merge_group grp rest)"

text \<open>
  The body of \<open>for replica in site.dataset_replicas\<close>; \<open>num_blocks\<close> is
  \<open>len(replica.dataset.blocks)\<close>.
\<close>

definition merge_replica :: "nat \<Rightarrow> dataset_replica \<Rightarrow> dataset_replica" where
  "merge_replica num_blocks replica =
     (let replica =
            (if length (dr_block_replicas replica) \<noteq> num_blocks
             then replica\<lparr>dr_is_partial := True\<rparr> else replica)
      in replica\<lparr>dr_group := merge_group (dr_group replica) (dr_block_replicas replica)\<rparr>)"

definition merge_site_replicas ::
  "(string \<Rightarrow> nat) \<Rightarrow> dataset_replica list \<Rightarrow> dataset_replica list" where
  "merge_site_replicas num_blocks_of replicas =
     map (\<lambda>replica. merge_replica (num_blocks_of (dr_dataset replica)) replica) replicas"




text \<open>
  A concrete run: one registered group, one site, and a replica entry whose group
  \<open>Unknown\<close> is not registered.
\<close>

definition example_groups :: "(string \<times> group) list" where
  "example_groups = [(''AnalysisOps'', \<lparr>g_name = Some ''AnalysisOps''\<rparr>)]"

definition example_sites :: "(string \<times> site_obj) list" where
  "example_sites = [(''T2_A'', \<lparr>s_name = ''T2_A'', s_group_quota = [(''AnalysisOps'', 500)]\<rparr>)]"

definition unknown_group_entry :: replica_entry where
  "unknown_group_entry =
     \<lparr>re_group = Some ''Unknown'', re_node = ''T2_A'', re_time_update = 1500000000,
      re_complete = ''y'', re_custodial = ''n'', re_bytes = 10\<rparr>"

definition empty_pass2 :: pass2_state where
  "empty_pass2 = \<lparr>dataset_replicas = [], warnings = []\<rparr>"

subsection \<open>Splitting the replica query into chunks\<close>

text \<open>
  \<open>chunk_size = max(62 / int(total_quota / 100), 1)\<close>. The quotas are integers and the
  code is Python 2, so both divisions are floor divisions and \<open>int\<close> changes nothing.
  The branch is entered with \<open>total_quota \<ge> 500\<close> only, so the divisor is at least 5.
\<close>

definition chunk_size_of :: "int \<Rightarrow> int" where
  "chunk_size_of total_quota = max (62 div (total_quota div 100)) 1"

definition characters :: string where
  "characters = ''aAbBcCdDeEfFgGhHiIjJkKlLmMnNoOpPqQrRsStTuUvVwWxXyYzZ0123456789''"

text \<open>
  \<open>[characters[i:i + chunk_size] for i in range(0, 62, chunk_size)]\<close>, for a positive
  \<open>chunk_size\<close>.
\<close>

definition charsets :: "int \<Rightarrow> string list" where
  "charsets chunk_size =
     map (\<lambda>i. take (nat chunk_size) (drop i characters))
         (filter (\<lambda>i. i mod nat chunk_size = 0) [0 ..< 62])"

text \<open>
  An element of \<open>items\<close>: the arguments \<open>(site_list, gname_list, dname_list)\<close> of one call
  of \<open>exec_get\<close>, which makes one \<open>blockreplicas\<close> request.
\<close>

type_synonym item = "site_obj list \<times> string option list \<times> string list"

definition total_quota_of :: "site_obj \<Rightarrow> int" where
  "total_quota_of site = sum_list (map snd (s_group_quota site))"

definition site_items :: "site_obj \<Rightarrow> string option list \<Rightarrow> item list" where
  "site_items site gname_list =
     (let total_quota = total_quota_of site in
      if total_quota \<ge> 500 then
        map (\<lambda>charset. ([site], gname_list, map (\<lambda>c. ''/'' @ [c] @ ''*/*/*'') charset))
            (charsets (chunk_size_of total_quota))
      else [([site], gname_list, [''/*/*/*''])])"

text \<open>
  How \<open>make_replica_links\<close> issues its queries: through \<open>parallel_exec\<close> over \<open>items\<close>
  with \<open>num_threads\<close> workers, or by one direct call of \<open>exec_get\<close>.
\<close>

datatype query_plan = ParallelExec "item list" nat | DirectCall item

definition replica_queries ::
  "(string \<Rightarrow> string \<Rightarrow> bool) \<Rightarrow> (string \<times> site_obj) list \<Rightarrow> (string \<times> group) list
   \<Rightarrow> string \<Rightarrow> string \<Rightarrow> string \<Rightarrow> query_plan" where
  "replica_queries fnmatch sites groups site_filt group_filt dataset_filt =
     (let all_sites = all_sites_of fnmatch sites site_filt;
          gname_list = gname_list_of fnmatch groups group_filt
      in if dataset_filt = ''/*/*/*'' \<or> dataset_filt = '''' \<or> dataset_filt = ''*'' then
           (let items = concat (map (\<lambda>site. site_items site gname_list) all_sites)
            in ParallelExec items (min 64 (length items)))
         else DirectCall (all_sites, gname_list, [dataset_filt]))"

text \<open>The number of \<open>blockreplicas\<close> requests a plan makes, and its patterns by chunk.\<close>

fun num_queries :: "query_plan \<Rightarrow> nat" where
  "num_queries (ParallelExec items n) = length items"
| "num_queries (DirectCall item) = 1"

definition chunk_patterns :: "item list \<Rightarrow> string list list" where
  "chunk_patterns items = map (\<lambda>(site_list, gname_list, dname_list). dname_list) items"

text \<open>
  The shape of \<open>charsets c\<close>: \<open>62 div c\<close> slices of \<open>c\<close> characters, followed by one
  shorter slice of \<open>62 mod c\<close> characters when \<open>c\<close> does not divide 62, which together
  spell \<open>characters\<close>.
\<close>

definition charsets_shape :: "int \<Rightarrow> bool" where
  "charsets_shape c \<longleftrightarrow>
     map length (charsets c)
       = replicate (62 div nat c) (nat c) @ (if 62 mod nat c = 0 then [] else [62 mod nat c])
     \<and> concat (charsets c) = characters"

subsection \<open>Tape copies\<close>

datatype dataset_status =
  STAT_VALID | STAT_PRODUCTION | STAT_UNKNOWN | STAT_INVALID | STAT_DEPRECATED | STAT_IGNORED





text \<open>
  The chunks of the first loop: each dataset is appended to the last chunk, and a new
  empty chunk is opened when the last one reaches \<open>chunk_size\<close>; an empty last chunk
  is dropped at the end.
\<close>

definition append_to_chunks :: "nat \<Rightarrow> 'a list list \<Rightarrow> 'a \<Rightarrow> 'a list list" where
  "append_to_chunks chunk_size chunks x =
     (let chunks = butlast chunks @ [last chunks @ [x]]
      in if length (last chunks) = chunk_size then chunks @ [[]] else chunks)"

definition dataset_chunks :: "nat \<Rightarrow> 'a list \<Rightarrow> 'a list list" where
  "dataset_chunks chunk_size xs =
     (let chunks = foldl (append_to_chunks chunk_size) [[]] xs
      in if length (last chunks) = 0 then butlast chunks else chunks)"







section \<open>Persistent store (lib/core/persistency/impl/mysqlstore.py)\<close>

subsection \<open>The database\<close>

text \<open>
  The SQL driver (\<open>self._mysql\<close>) is a primitive of the store. Its statements are kept
  in abstract syntax: \<open>InsertUpdate table fields values\<close> is the statement built by
  \<open>_insert_update\<close> (\<open>INSERT INTO table (fields) VALUES (values) ON DUPLICATE KEY UPDATE
  ...\<close>), \<open>DeleteWhere table conds\<close> is \<open>DELETE FROM table WHERE f1 = v1 AND ...\<close>, and
  \<open>Sql text args\<close> is any other statement, given by its text with \<open>%s\<close> placeholders
  and its arguments. \<open>SqlTime t\<close> stands for the formatted local time of the epoch
  seconds \<open>t\<close>.
\<close>

datatype sql_value = SqlInt int | SqlStr string | SqlBool bool | SqlTime int | SqlReal real

datatype statement =
    InsertUpdate string "string list" "sql_value list"
  | DeleteWhere string "(string \<times> sql_value) list"
  | Sql string "sql_value list"

text \<open>
  The mutators take the driver as a parameter: a function that executes a statement on
  a database and returns the value of \<open>query\<close> with the new database. The state
  threaded through a mutator is the database with the list of statements issued so
  far.
\<close>

type_synonym 'db driver = "statement \<Rightarrow> 'db \<Rightarrow> nat \<times> 'db"

definition issue :: "'db driver \<Rightarrow> statement \<Rightarrow> 'db \<times> statement list \<Rightarrow> nat \<times> 'db \<times> statement list" where
  "issue query stmt st =
     (case st of (db, issued) \<Rightarrow>
        (case query stmt db of (result, db') \<Rightarrow> (result, db', issued @ [stmt])))"

definition insert_update ::
  "'db driver \<Rightarrow> string \<Rightarrow> string list \<Rightarrow> sql_value list \<Rightarrow> 'db \<times> statement list
   \<Rightarrow> nat \<times> 'db \<times> statement list" where
  "insert_update query table field_names vals st =
     issue query (InsertUpdate table field_names vals) st"

text \<open>
  A \<open>SELECT\<close> returns the list of its values and leaves the database as it is; what
  it returns is a parameter of the mutators that read one. It is recorded among the
  issued statements like any other.
\<close>

type_synonym 'db selector = "string \<Rightarrow> sql_value list \<Rightarrow> 'db \<Rightarrow> sql_value list"

definition issue_select ::
  "'db selector \<Rightarrow> string \<Rightarrow> sql_value list \<Rightarrow> 'db \<times> statement list
   \<Rightarrow> sql_value list \<times> 'db \<times> statement list" where
  "issue_select select sql args st =
     (case st of (db, issued) \<Rightarrow> (select sql args db, db, issued @ [Sql sql args]))"

subsection \<open>Objects of the inventory as the store reads them\<close>

text \<open>
  \<open>id\<close> fields are 0 until the object is saved. A block carries the id of its dataset
  (\<open>block.dataset.id\<close>), a block replica the block and the ids of its site and group.
\<close>

record store_block =
  blk_id :: nat
  blk_dataset_id :: nat
  blk_real_name :: string
  blk_size :: int
  blk_num_files :: int
  blk_is_open :: bool
  blk_last_update :: int

record store_file =
  f_id :: nat
  f_block :: store_block
  f_size :: int
  f_lfn :: string

record store_block_replica =
  sbr_block :: store_block
  sbr_site_id :: nat
  sbr_group_id :: nat
  sbr_is_complete :: bool
  sbr_is_custodial :: bool
  sbr_size :: int
  sbr_last_update :: int

record store_dataset_replica =
  sdr_dataset_id :: nat
  sdr_site_id :: nat

text \<open>
  A site partition with the id of its site, the name and the \<open>subpartitions\<close> of its
  partition (\<open>None\<close> for a leaf) and its quota in bytes.
\<close>

record store_site_partition =
  sp_site_id :: nat
  sp_partition_name :: string
  sp_subpartitions :: "string list option"
  sp_quota :: int

subsection \<open>Incremental mutators\<close>

definition save_block ::
  "'db driver \<Rightarrow> 'db \<times> statement list \<Rightarrow> store_block \<Rightarrow> ('db \<times> statement list) \<times> store_block" where
  "save_block query st blk =
     (let dataset_id = blk_dataset_id blk in
      if dataset_id = 0 then (st, blk)
      else
        (case insert_update query ''blocks''
                [''dataset_id'', ''name'', ''size'', ''num_files'', ''is_open'', ''last_update'']
                [SqlInt (int dataset_id), SqlStr (blk_real_name blk), SqlInt (blk_size blk),
                 SqlInt (blk_num_files blk), SqlBool (blk_is_open blk),
                 SqlTime (blk_last_update blk)] st of
           (block_id, st') \<Rightarrow>
             (st', if block_id \<noteq> 0 then blk\<lparr>blk_id := block_id\<rparr> else blk)))"

definition save_file ::
  "'db driver \<Rightarrow> 'db \<times> statement list \<Rightarrow> store_file \<Rightarrow> ('db \<times> statement list) \<times> store_file" where
  "save_file query st lfile =
     (let dataset_id = blk_dataset_id (f_block lfile) in
      if dataset_id = 0 then (st, lfile)
      else
        let block_id = blk_id (f_block lfile) in
        if block_id = 0 then (st, lfile)
        else
          (case insert_update query ''files'' [''block_id'', ''dataset_id'', ''size'', ''name'']
                  [SqlInt (int block_id), SqlInt (int dataset_id), SqlInt (f_size lfile),
                   SqlStr (f_lfn lfile)] st of
             (file_id, st') \<Rightarrow>
               (st', if file_id \<noteq> 0 then lfile\<lparr>f_id := file_id\<rparr> else lfile)))"

definition save_blockreplica ::
  "'db driver \<Rightarrow> 'db \<times> statement list \<Rightarrow> store_block_replica \<Rightarrow> 'db \<times> statement list" where
  "save_blockreplica query st block_replica =
     (let block_id = blk_id (sbr_block block_replica) in
      if block_id = 0 then st
      else
        let site_id = sbr_site_id block_replica in
        if site_id = 0 then st
        else
          let st = snd (insert_update query ''block_replicas''
                     [''block_id'', ''site_id'', ''group_id'', ''is_complete'', ''is_custodial'',
                      ''last_update'']
                     [SqlInt (int block_id), SqlInt (int site_id),
                      SqlInt (int (sbr_group_id block_replica)),
                      SqlBool (sbr_is_complete block_replica),
                      SqlBool (sbr_is_custodial block_replica),
                      SqlTime (sbr_last_update block_replica)] st)
          in
          if sbr_size block_replica \<noteq> blk_size (sbr_block block_replica) then
            snd (insert_update query ''block_replica_sizes'' [''block_id'', ''site_id'', ''size'']
                   [SqlInt (int block_id), SqlInt (int site_id), SqlInt (sbr_size block_replica)]
                   st)
          else
            snd (issue query
                   (DeleteWhere ''block_replica_sizes''
                      [(''block_id'', SqlInt (int block_id)), (''site_id'', SqlInt (int site_id))])
                   st))"

definition save_datasetreplica ::
  "'db driver \<Rightarrow> 'db \<times> statement list \<Rightarrow> store_dataset_replica \<Rightarrow> 'db \<times> statement list" where
  "save_datasetreplica query st dataset_replica =
     (let dataset_id = sdr_dataset_id dataset_replica in
      if dataset_id = 0 then st
      else
        let site_id = sdr_site_id dataset_replica in
        if site_id = 0 then st
        else snd (insert_update query ''dataset_replicas'' [''dataset_id'', ''site_id'']
                    [SqlInt (int dataset_id), SqlInt (int site_id)] st))"

text \<open>
  The \<open>delete_*\<close> counterparts and \<open>save_sitepartition\<close>. Statements that are neither an
  \<open>_insert_update\<close> nor a single-table \<open>DELETE\<close> are issued as their text. The
  \<open>SELECT\<close> statements go to the \<open>select\<close> parameter; \<open>query(...)[0]\<close> on an empty
  result raises \<open>IndexError\<close>, and the result is then the exception alone.
\<close>

definition delete_block ::
  "'db driver \<Rightarrow> 'db \<times> statement list \<Rightarrow> store_block \<Rightarrow> 'db \<times> statement list" where
  "delete_block query st blk =
     (let dataset_id = blk_dataset_id blk in
      if dataset_id = 0 then st
      else snd (issue query
                  (Sql (''DELETE FROM b, f, r USING `blocks` AS b''
                        @ '' LEFT JOIN `block_replicas` AS r ON r.`block_id` = b.`id`''
                        @ '' LEFT JOIN `files` AS f ON f.`block_id` = b.`id`''
                        @ '' WHERE b.`dataset_id` = %s AND b.`name` = %s'')
                       [SqlInt (int dataset_id), SqlStr (blk_real_name blk)])
                  st))"

definition delete_file ::
  "'db driver \<Rightarrow> 'db \<times> statement list \<Rightarrow> store_file \<Rightarrow> 'db \<times> statement list" where
  "delete_file query st lfile =
     snd (issue query (DeleteWhere ''files'' [(''name'', SqlStr (f_lfn lfile))]) st)"

definition delete_blockreplica ::
  "'db driver \<Rightarrow> 'db selector \<Rightarrow> 'db \<times> statement list \<Rightarrow> store_block_replica
   \<Rightarrow> py_error + 'db \<times> statement list" where
  "delete_blockreplica query select st block_replica =
     (let dataset_id = blk_dataset_id (sbr_block block_replica) in
      if dataset_id = 0 then Inr st
      else
        let block_id = blk_id (sbr_block block_replica) in
        if block_id = 0 then Inr st
        else
          let site_id = sbr_site_id block_replica in
          if site_id = 0 then Inr st
          else
            let st = snd (issue query
                       (DeleteWhere ''block_replicas''
                          [(''block_id'', SqlInt (int block_id)),
                           (''site_id'', SqlInt (int site_id))]) st);
                st = snd (issue query
                       (DeleteWhere ''block_replica_sizes''
                          [(''block_id'', SqlInt (int block_id)),
                           (''site_id'', SqlInt (int site_id))]) st)
            in
            (case issue_select select
                    (''SELECT COUNT(*) FROM `block_replicas` AS br''
                     @ '' INNER JOIN `blocks` AS b ON b.`id` = br.`block_id`''
                     @ '' WHERE b.`dataset_id` = %s AND br.`site_id` = %s'')
                    [SqlInt (int dataset_id), SqlInt (int site_id)] st of
               ([], st) \<Rightarrow> Inl IndexError
             | (num_replicas # rest, st) \<Rightarrow>
                 if num_replicas = SqlInt 0 then
                   Inr (snd (issue query
                          (DeleteWhere ''dataset_replicas''
                             [(''dataset_id'', SqlInt (int dataset_id)),
                              (''site_id'', SqlInt (int site_id))]) st))
                 else Inr st))"

definition delete_datasetreplica ::
  "'db driver \<Rightarrow> 'db \<times> statement list \<Rightarrow> store_dataset_replica \<Rightarrow> 'db \<times> statement list" where
  "delete_datasetreplica query st dataset_replica =
     (let dataset_id = sdr_dataset_id dataset_replica in
      if dataset_id = 0 then st
      else
        let site_id = sdr_site_id dataset_replica in
        if site_id = 0 then st
        else
          let st = snd (issue query
                     (Sql (''DELETE FROM br, brs USING `blocks` AS b''
                           @ '' INNER JOIN `block_replicas` AS br ON br.`block_id` = b.`id`''
                           @ '' LEFT JOIN `block_replica_sizes` AS brs''
                           @ '' ON brs.`block_id` = b.`id` AND brs.`site_id` = br.`site_id`''
                           @ '' WHERE b.`dataset_id` = %s AND br.`site_id` = %s'')
                          [SqlInt (int dataset_id), SqlInt (int site_id)]) st)
          in snd (issue query
                    (DeleteWhere ''dataset_replicas''
                       [(''dataset_id'', SqlInt (int dataset_id)),
                        (''site_id'', SqlInt (int site_id))]) st))"

definition save_sitepartition ::
  "'db driver \<Rightarrow> 'db selector \<Rightarrow> 'db \<times> statement list \<Rightarrow> store_site_partition
   \<Rightarrow> 'db \<times> statement list" where
  "save_sitepartition query select st site_partition =
     (if sp_subpartitions site_partition \<noteq> None then st
      else
        let site_id = sp_site_id site_partition in
        if site_id = 0 then st
        else
          (case issue_select select ''SELECT `id` FROM `partitions` WHERE `name` = %s''
                  [SqlStr (sp_partition_name site_partition)] st of
             ([], st) \<Rightarrow> st
           | (partition_id # rest, st) \<Rightarrow>
               snd (insert_update query ''quotas'' [''site_id'', ''partition_id'', ''storage'']
                      [SqlInt (int site_id), partition_id,
                       SqlReal (real_of_int (sp_quota site_partition) * (1 / 10 ^ 12))] st)))"

subsection \<open>A model of the driver\<close>

text \<open>
  A table is a list of rows, a row a list of (column, value) pairs. The schema is not
  among the sources, so the engine takes the columns of each table's unique key
  (\<open>unique_key\<close>) and the id given to a new row of a table with an auto-increment
  column (\<open>auto_id\<close>, 0 for a table without one) as parameters. An
  \<open>INSERT ... ON DUPLICATE KEY UPDATE\<close> overwrites the listed columns of the rows that
  agree with the new row on the unique key and returns 0; when there is none it
  appends the new row and returns its id. What a statement given as text does is a
  third parameter (\<open>other_sql\<close>).
\<close>

type_synonym row = "(string \<times> sql_value) list"

type_synonym database = "string \<Rightarrow> row list"

definition matches :: "(string \<times> sql_value) list \<Rightarrow> row \<Rightarrow> bool" where
  "matches conds row \<longleftrightarrow> list_all (\<lambda>(f, v). map_of row f = Some v) conds"

definition set_columns :: "(string \<times> sql_value) list \<Rightarrow> row \<Rightarrow> row" where
  "set_columns new row = fold (\<lambda>(f, v). AList.update f v) new row"

fun mysql_query ::
  "(string \<Rightarrow> string list) \<Rightarrow> (string \<Rightarrow> row list \<Rightarrow> nat)
   \<Rightarrow> (string \<Rightarrow> sql_value list \<Rightarrow> database \<Rightarrow> nat \<times> database) \<Rightarrow> database driver" where
  "mysql_query unique_key auto_id other_sql (InsertUpdate table field_names vals) db =
     (let new = zip field_names vals;
          key = filter (\<lambda>(f, v). f \<in> set (unique_key table)) new;
          rows = db table
      in if unique_key table \<noteq> [] \<and> set (unique_key table) \<subseteq> set field_names
            \<and> list_ex (matches key) rows
         then (0, db(table := map (\<lambda>row. if matches key row then set_columns new row else row)
                                  rows))
         else (let new_id = auto_id table rows
               in (new_id,
                   db(table := rows @ [if new_id = 0 then new
                                       else (''id'', SqlInt (int new_id)) # new]))))"
| "mysql_query unique_key auto_id other_sql (DeleteWhere table conds) db =
     (0, db(table := filter (\<lambda>row. \<not> matches conds row) (db table)))"
| "mysql_query unique_key auto_id other_sql (Sql sql args) db = other_sql sql args db"

subsection \<open>Loading block replicas\<close>

text \<open>
  The columns of one row of the join of \<open>_load_replicas\<close> that come from the left
  joins: \<open>br.block_id\<close>, \<open>br.group_id\<close>, \<open>br.is_complete\<close>, \<open>br.is_custodial\<close>,
  \<open>brs.size\<close> and \<open>br.last_update\<close>. They are \<open>None\<close> (SQL \<open>NULL\<close>) when the joined
  table has no row for the block and the site.
\<close>

record join_row =
  jr_block_id :: "nat option"
  jr_group_id :: "nat option"
  jr_is_complete :: "int option"
  jr_is_custodial :: "int option"
  jr_size :: "int option"
  jr_last_update :: "int option"

definition col_int :: "row option \<Rightarrow> string \<Rightarrow> int option" where
  "col_int joined f =
     (case joined of
        None \<Rightarrow> None
      | Some row \<Rightarrow>
          (case map_of row f of
             Some (SqlInt n) \<Rightarrow> Some n
           | Some (SqlBool b) \<Rightarrow> Some (if b then 1 else 0)
           | Some (SqlTime t) \<Rightarrow> Some t
           | _ \<Rightarrow> None))"

text \<open>
  The left joins \<open>ON (br.block_id, br.site_id) = (b.id, dr.site_id)\<close> and
  \<open>ON (brs.block_id, brs.site_id) = (b.id, dr.site_id)\<close> for the block with id
  \<open>block_id\<close> and the dataset replica at \<open>site_id\<close>; (block, site) is a unique key of
  both tables, so at most one row of each matches.
\<close>

definition join_row_of :: "database \<Rightarrow> nat \<Rightarrow> nat \<Rightarrow> join_row" where
  "join_row_of db block_id site_id =
     (let key = [(''block_id'', SqlInt (int block_id)), (''site_id'', SqlInt (int site_id))];
          br = find (matches key) (db ''block_replicas'');
          brs = find (matches key) (db ''block_replica_sizes'')
      in \<lparr>jr_block_id = map_option nat (col_int br ''block_id''),
          jr_group_id = map_option nat (col_int br ''group_id''),
          jr_is_complete = col_int br ''is_complete'',
          jr_is_custodial = col_int br ''is_custodial'',
          jr_size = col_int brs ''size'',
          jr_last_update = col_int br ''last_update''\<rparr>)"

text \<open>
  The part of the loop body of \<open>_load_replicas\<close> that builds the \<open>BlockReplica\<close> of a
  row: nothing when \<open>block_id\<close> is \<open>None\<close>; otherwise the block and the group are
  looked up by id (a missing id raises \<open>KeyError\<close>) and the size is
  \<open>block.size if b_size is None else b_size\<close>.
\<close>

definition load_blockreplica ::
  "(nat \<rightharpoonup> store_block) \<Rightarrow> (nat option \<Rightarrow> bool) \<Rightarrow> nat \<Rightarrow> join_row
   \<Rightarrow> py_error + store_block_replica option" where
  "load_blockreplica id_block_map id_group_map site_id jr =
     (case jr_block_id jr of
        None \<Rightarrow> Inr None
      | Some block_id \<Rightarrow>
          (case id_block_map block_id of
             None \<Rightarrow> Inl KeyError
           | Some blk \<Rightarrow>
               if \<not> id_group_map (jr_group_id jr) then Inl KeyError
               else Inr (Some
                 \<lparr>sbr_block = blk, sbr_site_id = site_id,
                  sbr_group_id = (case jr_group_id jr of Some g \<Rightarrow> g | None \<Rightarrow> 0),
                  sbr_is_complete = (jr_is_complete jr = Some 1),
                  sbr_is_custodial = (jr_is_custodial jr = Some 1),
                  sbr_size = (case jr_size jr of None \<Rightarrow> blk_size blk | Some brs_size \<Rightarrow> brs_size),
                  sbr_last_update = (case jr_last_update jr of Some t \<Rightarrow> t | None \<Rightarrow> 0)\<rparr>)))"

text \<open>
  A schema for concrete runs, after the logical schema of the store: the unique key
  of each table and the tables with an auto-increment \<open>id\<close>.
\<close>

definition store_unique_key :: "string \<Rightarrow> string list" where
  "store_unique_key table =
     (if table = ''blocks'' then [''dataset_id'', ''name'']
      else if table = ''files'' then [''name'']
      else if table = ''dataset_replicas'' then [''dataset_id'', ''site_id'']
      else if table = ''block_replicas'' \<or> table = ''block_replica_sizes''
        then [''block_id'', ''site_id'']
      else [])"

definition store_auto_id :: "string \<Rightarrow> row list \<Rightarrow> nat" where
  "store_auto_id table rows =
     (if table = ''blocks'' \<or> table = ''files'' then Suc (length rows) else 0)"

text \<open>
  None of the runs below issues a statement given as text; \<open>no_other_sql\<close> fills the
  place of the engine's third parameter in them and is never called.
\<close>

definition no_other_sql :: "string \<Rightarrow> sql_value list \<Rightarrow> database \<Rightarrow> nat \<times> database" where
  "no_other_sql sql args db = (0, db)"

definition empty_database :: database where
  "empty_database table = []"

definition unsaved_block :: store_block where
  "unsaved_block =
     \<lparr>blk_id = 0, blk_dataset_id = 0, blk_real_name = ''b1'', blk_size = 10, blk_num_files = 1,
      blk_is_open = False, blk_last_update = 1500000000\<rparr>"

definition saved_block :: store_block where
  "saved_block =
     \<lparr>blk_id = 7, blk_dataset_id = 3, blk_real_name = ''b1'', blk_size = 10, blk_num_files = 1,
      blk_is_open = False, blk_last_update = 1500000000\<rparr>"

definition partial_blockreplica :: store_block_replica where
  "partial_blockreplica =
     \<lparr>sbr_block = saved_block, sbr_site_id = 2, sbr_group_id = 1, sbr_is_complete = False,
      sbr_is_custodial = False, sbr_size = 4, sbr_last_update = 1500000000\<rparr>"

definition full_blockreplica :: store_block_replica where
  "full_blockreplica =
     \<lparr>sbr_block = saved_block, sbr_site_id = 2, sbr_group_id = 1, sbr_is_complete = True,
      sbr_is_custodial = False, sbr_size = 10, sbr_last_update = 1500000000\<rparr>"

definition example_group_ids :: "nat option \<Rightarrow> bool" where
  "example_group_ids group_id \<longleftrightarrow> group_id = Some 1"

definition unsaved_dataset_replica :: store_dataset_replica where
  "unsaved_dataset_replica = \<lparr>sdr_dataset_id = 3, sdr_site_id = 0\<rparr>"

text \<open>
  A file object whose block and dataset are not saved, and a database that has a
  \<open>files\<close> row of the same name, saved under block 7 of dataset 3.
\<close>

definition unsaved_file :: store_file where
  "unsaved_file = \<lparr>f_id = 0, f_block = unsaved_block, f_size = 5, f_lfn = ''/store/a.root''\<rparr>"

definition database_with_file :: database where
  "database_with_file =
     empty_database
       (''files'' := [[(''id'', SqlInt 1), (''block_id'', SqlInt 7), (''dataset_id'', SqlInt 3),
                       (''size'', SqlInt 5), (''name'', SqlStr ''/store/a.root'')]])"

text \<open>
  A \<open>SELECT\<close> that finds nothing, and a site partition of an unsaved site.
\<close>

definition no_rows :: "database selector" where
  "no_rows sql args db = []"

definition unsaved_site_partition :: store_site_partition where
  "unsaved_site_partition =
     \<lparr>sp_site_id = 0, sp_partition_name = ''AnalysisOps'', sp_subpartitions = None,
      sp_quota = 100000000000000\<rparr>"

section \<open>Enforcer (lib/enforcer/interface.py)\<close>

text \<open>
  Sites, datasets and groups are referred to by name. A dataset replica is given by
  what \<open>report_back\<close> reads of it: its dataset, its site, the owners of its block
  replicas (\<open>b.group for b in replica.block_replicas\<close>, \<open>None\<close> for no group) and the
  value of \<open>is_full()\<close>. Conditions are predicates; \<open>Condition.match\<close> is not among the
  sources.
\<close>

record enf_replica =
  er_dataset :: string
  er_site :: string
  er_owners :: "string option list"
  er_is_full :: bool

record enforcer_rule =
  rule_num_copies :: int
  rule_destination_sites :: "(string \<Rightarrow> bool) list"
  rule_source_sites :: "(string \<Rightarrow> bool) list"
  rule_target_replicas :: "(enf_replica \<Rightarrow> bool) list"
  rule_destination_group_name :: string

text \<open>
  The inventory: the sites (\<open>inventory.sites.values()\<close>), the names of the groups,
  for each site the dictionary \<open>site.partitions[partition].replicas\<close> of the enforcer's
  partition in iteration order (the value is \<open>None\<close> when the whole replica is in the
  partition, and the block replicas that are otherwise), and for each dataset its
  \<open>replicas\<close>.
\<close>

record inventory =
  inv_sites :: "string list"
  inv_groups :: "string list"
  inv_partition_replicas :: "string \<Rightarrow> (enf_replica \<times> string list option) list"
  inv_dataset_replicas :: "string \<Rightarrow> enf_replica list"

text \<open>\<open>_get_sites\<close>: the set of sites that match one of the conditions.\<close>

definition get_sites :: "(string \<Rightarrow> bool) list \<Rightarrow> inventory \<Rightarrow> string set" where
  "get_sites conditions inventory =
     set (filter (\<lambda>s. list_ex (\<lambda>condition. condition s) conditions) (inv_sites inventory))"

text \<open>
  The loop \<open>for replica in dataset.replicas\<close>: the state is \<open>num_complete\<close>,
  \<open>num_incomplete\<close> and \<open>can_be_flipped\<close>. \<open>sp_replicas\<close> is
  \<open>site_partition.replicas\<close> of the source site being visited.
\<close>

definition count_replica ::
  "string set \<Rightarrow> (enf_replica \<times> string list option) list \<Rightarrow> string
   \<Rightarrow> nat \<times> nat \<times> enf_replica list \<Rightarrow> enf_replica \<Rightarrow> nat \<times> nat \<times> enf_replica list" where
  "count_replica destination_sites sp_replicas destination_group acc replica =
     (case acc of (num_complete, num_incomplete, can_be_flipped) \<Rightarrow>
        if er_site replica \<notin> destination_sites then acc
        else
          (case map_of sp_replicas replica of
             None \<Rightarrow> acc
           | Some (Some blockreps_in_partition) \<Rightarrow> acc
           | Some None \<Rightarrow>
               if \<not> (set (er_owners replica) = {Some destination_group})
               then (num_complete, num_incomplete, can_be_flipped @ [replica])
               else if er_is_full replica then (Suc num_complete, num_incomplete, can_be_flipped)
               else (num_complete, Suc num_incomplete, can_be_flipped)))"

text \<open>
  The loop \<open>while num_complete + num_incomplete + len(request_sites) < target_num\<close>,
  with \<open>placed = num_complete + num_incomplete\<close>. \<open>pop()\<close> takes the last element.
\<close>

function make_requests ::
  "int \<Rightarrow> nat \<Rightarrow> enf_replica list \<Rightarrow> string list \<Rightarrow> string list \<Rightarrow> string list" where
  "make_requests target_num placed can_be_flipped site_candidates request_sites =
     (if int (placed + length request_sites) < target_num then
        (if length can_be_flipped \<noteq> 0 then
           make_requests target_num placed (butlast can_be_flipped) site_candidates
             (request_sites @ [er_site (last can_be_flipped)])
         else if length site_candidates = 0 then request_sites
         else make_requests target_num placed can_be_flipped (butlast site_candidates)
                (request_sites @ [last site_candidates]))
      else request_sites)"
  by pat_completeness auto
termination
  by (relation "measure (\<lambda>(t, p, flip, cands, reqs). length flip + length cands)") auto

text \<open>
  The body of \<open>for replica in site_partition.replicas.iterkeys()\<close> for one rule. The
  state is \<open>checked_datasets\<close> and the copy requests appended to \<open>product\<close>.
  \<open>shuffle\<close> stands for \<open>random.shuffle\<close> and \<open>to_list\<close> for the order in which
  \<open>list(site_candidates)\<close> enumerates the set; nothing is assumed of either. With
  \<open>write_rrds\<close> set no copy request is made (the summaries collected for the RRD files
  are left out).
\<close>

record rule_state =
  checked_datasets :: "string list"
  product :: "(string \<times> string) list"

definition visit_replica ::
  "(string list \<Rightarrow> string list) \<Rightarrow> (string set \<Rightarrow> string list) \<Rightarrow> bool \<Rightarrow> inventory
   \<Rightarrow> enforcer_rule \<Rightarrow> string set \<Rightarrow> int \<Rightarrow> (enf_replica \<times> string list option) list
   \<Rightarrow> rule_state \<Rightarrow> enf_replica \<Rightarrow> rule_state" where
  "visit_replica shuffle to_list write_rrds inventory rule destination_sites target_num sp_replicas
       st replica =
     (let ds = er_dataset replica in
      if ds \<in> set (checked_datasets st) then st
      else
        let st = st\<lparr>checked_datasets := ds # checked_datasets st\<rparr> in
        if \<not> list_ex (\<lambda>condition. condition replica) (rule_target_replicas rule) then st
        else
          (case foldl (count_replica destination_sites sp_replicas
                         (rule_destination_group_name rule))
                      (0, 0, []) (inv_dataset_replicas inventory ds) of
             (num_complete, num_incomplete, can_be_flipped) \<Rightarrow>
               if int num_complete \<ge> target_num then st
               else if int (num_complete + num_incomplete) \<ge> target_num then st
               else
                 let site_candidates =
                       destination_sites
                       - set (map er_site (filter er_is_full (inv_dataset_replicas inventory ds)))
                 in
                 if card site_candidates = 0 \<and> length can_be_flipped = 0 then st
                 else if write_rrds then st
                 else
                   let request_sites =
                         make_requests target_num (num_complete + num_incomplete)
                           can_be_flipped (shuffle (to_list site_candidates)) []
                   in st\<lparr>product := product st @ map (\<lambda>s. (ds, s)) request_sites\<rparr>))"

text \<open>
  One iteration of \<open>for rule_name, rule in self.rules.iteritems()\<close>: the copy requests
  that the rule appends to \<open>product\<close>. \<open>target_num\<close> is \<open>rule.num_copies\<close>, capped at
  the number of destination sites.
\<close>

definition rule_target_num :: "enforcer_rule \<Rightarrow> inventory \<Rightarrow> int" where
  "rule_target_num rule inventory =
     (let destination_sites = get_sites (rule_destination_sites rule) inventory;
          target_num = rule_num_copies rule
      in if target_num > int (card destination_sites) then int (card destination_sites)
         else target_num)"

definition rule_requests ::
  "(string list \<Rightarrow> string list) \<Rightarrow> (string set \<Rightarrow> string list) \<Rightarrow> bool \<Rightarrow> inventory
   \<Rightarrow> enforcer_rule \<Rightarrow> (string \<times> string) list" where
  "rule_requests shuffle to_list write_rrds inventory rule =
     (let destination_sites = get_sites (rule_destination_sites rule) inventory;
          source_sites = filter (\<lambda>s. list_ex (\<lambda>condition. condition s) (rule_source_sites rule))
                                (inv_sites inventory);
          target_num = rule_target_num rule inventory
      in product
           (foldl (\<lambda>st source.
                     foldl (visit_replica shuffle to_list write_rrds inventory rule destination_sites
                              target_num (inv_partition_replicas inventory source))
                           st (map fst (inv_partition_replicas inventory source)))
                  \<lparr>checked_datasets = [], product = []\<rparr> source_sites))"

text \<open>
  \<open>report_back\<close> without \<open>write_rrds\<close>: the requests of all rules, shuffled at the end
  by \<open>shuffle_product\<close>. \<open>inventory.groups[rule.destination_group_name]\<close> raises
  \<open>KeyError\<close> for a rule whose destination group is not in the inventory.
\<close>

definition report_back ::
  "((string \<times> string) list \<Rightarrow> (string \<times> string) list) \<Rightarrow> (string list \<Rightarrow> string list)
   \<Rightarrow> (string set \<Rightarrow> string list) \<Rightarrow> inventory \<Rightarrow> enforcer_rule list
   \<Rightarrow> py_error + (string \<times> string) list" where
  "report_back shuffle_product shuffle to_list inventory enf_rules =
     (if list_all (\<lambda>rule. rule_destination_group_name rule \<in> set (inv_groups inventory)) enf_rules
      then Inr (shuffle_product
                  (concat (map (rule_requests shuffle to_list False inventory) enf_rules)))
      else Inl KeyError)"

text \<open>The copy requests of a list that are for dataset \<open>d\<close>.\<close>

definition requests_for :: "string \<Rightarrow> (string \<times> string) list \<Rightarrow> (string \<times> string) list" where
  "requests_for d requests = filter (\<lambda>(ds, s). ds = d) requests"

declare make_requests.simps [simp del]

text \<open>
  The invariant of the loops of a rule: no dataset has more than \<open>n\<close> requests, and
  a dataset that has not been checked has none.
\<close>

definition requests_inv :: "nat \<Rightarrow> rule_state \<Rightarrow> bool" where
  "requests_inv n st \<longleftrightarrow>
     (\<forall>d. length (requests_for d (product st)) \<le> n)
     \<and> (\<forall>d. d \<notin> set (checked_datasets st) \<longrightarrow> requests_for d (product st) = [])"

text \<open>
  A concrete run: \<open>/X/Y/Z\<close> is complete at \<open>T1_a\<close>; the rule asks for 5 copies at the
  \<open>T2_*\<close> sites, of which there are two.
\<close>

definition is_T1 :: "string \<Rightarrow> bool" where
  "is_T1 s = (take 3 s = ''T1_'')"

definition is_T2 :: "string \<Rightarrow> bool" where
  "is_T2 s = (take 3 s = ''T2_'')"

definition any_replica :: "enf_replica \<Rightarrow> bool" where
  "any_replica r = True"

definition xyz_at_T1 :: enf_replica where
  "xyz_at_T1 =
     \<lparr>er_dataset = ''/X/Y/Z'', er_site = ''T1_a'', er_owners = [Some ''G''], er_is_full = True\<rparr>"

definition example_inventory :: inventory where
  "example_inventory =
     \<lparr>inv_sites = [''T1_a'', ''T2_b'', ''T2_c''], inv_groups = [''G''],
      inv_partition_replicas = (\<lambda>s. if s = ''T1_a'' then [(xyz_at_T1, None)] else []),
      inv_dataset_replicas = (\<lambda>d. if d = ''/X/Y/Z'' then [xyz_at_T1] else [])\<rparr>"

definition example_rule :: enforcer_rule where
  "example_rule =
     \<lparr>rule_num_copies = 5, rule_destination_sites = [is_T2], rule_source_sites = [is_T1],
      rule_target_replicas = [any_replica], rule_destination_group_name = ''G''\<rparr>"

section \<open>Policy.evaluate\<close>

lemma upt_from: "[k ..< k + length (x # xs)] = k # [Suc k ..< Suc k + length xs]"
  by (subst upt_rec) simp

lemma evaluate_rules_all_none:
  "\<forall>rule \<in> set rs. rule r d = None \<Longrightarrow>
   evaluate_rules k rs r d = (None, [k ..< k + length rs])"
proof (induction rs arbitrary: k)
  case Nil
  then show ?case by simp
next
  case (Cons rule rest)
  have "[k ..< k + length (rule # rest)] = k # [Suc k ..< Suc k + length rest]"
    by (rule upt_from)
  with Cons show ?case by simp
qed

lemma evaluate_rules_first:
  "i < length rs \<Longrightarrow> (rs ! i) r d = Some res \<Longrightarrow> \<forall>j < i. (rs ! j) r d = None \<Longrightarrow>
   evaluate_rules k rs r d = (Some res, [k ..< k + Suc i])"
proof (induction rs arbitrary: k i)
  case Nil
  then show ?case by simp
next
  case (Cons rule rest)
  show ?case
  proof (cases i)
    case 0
    with Cons.prems show ?thesis by simp
  next
    case (Suc i')
    from Cons.prems Suc have head: "rule r d = None" by auto
    from Cons.prems Suc have "i' < length rest" "(rest ! i') r d = Some res"
      "\<forall>j < i'. (rest ! j) r d = None" by auto
    then have "evaluate_rules (Suc k) rest r d = (Some res, [Suc k ..< Suc k + Suc i'])"
      by (rule Cons.IH)
    with head Suc show ?thesis by (simp add: upt_conv_Cons)
  qed
qed

text \<open>
  Claim C7. \<open>Policy.evaluate\<close> returns the result of the first rule, in list order, whose
  result is not \<open>None\<close>, and the rules called are exactly those up to and including that
  rule, so no later rule is consulted. When every rule returns \<open>None\<close> it returns
  \<open>(replica, default_decision, "Policy default")\<close> after calling all of them.
\<close>

theorem evaluate_first_non_null:
  "(i < length (rules self) \<and> (rules self ! i) replica dm = Some res \<and>
      (\<forall>j < i. (rules self ! j) replica dm = None)
     \<longrightarrow> evaluate self replica dm = (res, [0 ..< Suc i]))
   \<and> ((\<forall>rule \<in> set (rules self). rule replica dm = None)
     \<longrightarrow> evaluate self replica dm =
          ((replica, default_decision self, ''Policy default''), [0 ..< length (rules self)]))"
proof (intro conjI impI)
  assume "i < length (rules self) \<and> (rules self ! i) replica dm = Some res \<and>
      (\<forall>j < i. (rules self ! j) replica dm = None)"
  then have "evaluate_rules 0 (rules self) replica dm = (Some res, [0 ..< 0 + Suc i])"
    by (intro evaluate_rules_first) auto
  then show "evaluate self replica dm = (res, [0 ..< Suc i])"
    by (simp add: evaluate_def)
next
  assume "\<forall>rule \<in> set (rules self). rule replica dm = None"
  then have "evaluate_rules 0 (rules self) replica dm = (None, [0 ..< 0 + length (rules self)])"
    by (rule evaluate_rules_all_none)
  then show "evaluate self replica dm =
      ((replica, default_decision self, ''Policy default''), [0 ..< length (rules self)])"
    by (simp add: evaluate_def)
qed

theorem evaluate_first_non_null_witness:
  "evaluate \<lparr>default_decision = DEC_DELETE,
       rules = [\<lambda>r d. None, \<lambda>r d. Some (r, DEC_PROTECT, ''locked''),
                \<lambda>r d. Some (r, DEC_KEEP, ''late'')]\<rparr> ''rep'' ()
     = ((''rep'', DEC_PROTECT, ''locked''), [0, 1])
   \<and> evaluate \<lparr>default_decision = DEC_DELETE, rules = [\<lambda>r d. None, \<lambda>r d. None]\<rparr> ''rep'' ()
     = ((''rep'', DEC_DELETE, ''Policy default''), [0, 1])"
proof
  let ?p = "\<lparr>default_decision = DEC_DELETE,
       rules = [\<lambda>(r::string) (d::unit). None, \<lambda>r d. Some (r, DEC_PROTECT, ''locked''),
                \<lambda>r d. Some (r, DEC_KEEP, ''late'')]\<rparr>"
  have first: "Suc 0 < length (rules ?p) \<and>
      (rules ?p ! Suc 0) ''rep'' () = Some (''rep'', DEC_PROTECT, ''locked'') \<and>
      (\<forall>j < Suc 0. (rules ?p ! j) ''rep'' () = None)"
    by simp
  from evaluate_first_non_null [where self = ?p and replica = "''rep''" and dm = "()"
      and i = "Suc 0" and res = "(''rep'', DEC_PROTECT, ''locked'')", THEN conjunct1, THEN mp, OF first]
  show "evaluate ?p ''rep'' () = ((''rep'', DEC_PROTECT, ''locked''), [0, 1])"
    by simp
next
  let ?q = "\<lparr>default_decision = DEC_DELETE, rules = [\<lambda>(r::string) (d::unit). None, \<lambda>r d. None]\<rparr>"
  have all_none: "\<forall>rule \<in> set (rules ?q). rule ''rep'' () = None"
    by simp
  from evaluate_first_non_null [where self = ?q and replica = "''rep''" and dm = "()",
      THEN conjunct2, THEN mp, OF all_none]
  show "evaluate ?q ''rep'' () = ((''rep'', DEC_DELETE, ''Policy default''), [0, 1])"
    by simp
qed

section \<open>Policy.sort_deletion_candidates\<close>

lemma sort_desc_sorted:
  "sorted_wrt (\<lambda>a b. f b \<le> f a) (rev (sort_key f (rev xs)))"
proof -
  have "sorted (map f (sort_key f (rev xs)))" by (rule sorted_sort_key)
  then have "sorted_wrt (\<lambda>a b. f a \<le> f b) (sort_key f (rev xs))"
    by (simp add: sorted_map)
  then show ?thesis by (simp add: sorted_wrt_rev)
qed

lemma sort_desc_stable:
  "filter (\<lambda>r. f r = k) (rev (sort_key f (rev xs))) = filter (\<lambda>r. f r = k) xs"
proof -
  have "filter (\<lambda>r. f r = k) (rev (sort_key f (rev xs)))
      = rev (filter (\<lambda>r. f r = k) (sort_key f (rev xs)))"
    by (simp add: rev_filter)
  also have "\<dots> = rev (filter (\<lambda>r. f r = k) (rev xs))"
    by (simp only: sort_key_stable)
  also have "\<dots> = filter (\<lambda>r. f r = k) xs"
    by (simp add: rev_filter)
  finally show ?thesis .
qed

text \<open>
  Claim C6, as the code has it. When every replica's dataset has a demand entry,
  \<open>sort_deletion_candidates\<close> returns a permutation of the candidates in descending
  order of \<open>global_usage_rank\<close>, and candidates of equal rank keep the order they had in
  the input: the dataset name plays no part in the order.
\<close>

theorem sort_deletion_candidates_stable:
  assumes "list_all (\<lambda>r. dataset_demands (r_dataset r) \<noteq> None) replicas"
  shows "\<exists>ys. sort_deletion_candidates replicas dataset_demands = Inr ys
      \<and> mset ys = mset replicas
      \<and> sorted_wrt (\<lambda>a b. rank_of dataset_demands b \<le> rank_of dataset_demands a) ys
      \<and> (\<forall>k. filter (\<lambda>r. rank_of dataset_demands r = k) ys
             = filter (\<lambda>r. rank_of dataset_demands r = k) replicas)"
proof (intro exI conjI allI)
  show "sort_deletion_candidates replicas dataset_demands
      = Inr (rev (sort_key (rank_of dataset_demands) (rev replicas)))"
    using assms by (simp add: sort_deletion_candidates_def)
  show "mset (rev (sort_key (rank_of dataset_demands) (rev replicas))) = mset replicas"
    by simp
  show "sorted_wrt (\<lambda>a b. rank_of dataset_demands b \<le> rank_of dataset_demands a)
      (rev (sort_key (rank_of dataset_demands) (rev replicas)))"
    by (rule sort_desc_sorted)
  show "filter (\<lambda>r. rank_of dataset_demands r = k)
        (rev (sort_key (rank_of dataset_demands) (rev replicas)))
      = filter (\<lambda>r. rank_of dataset_demands r = k) replicas" for k
    by (rule sort_desc_stable)
qed

text \<open>
  Two candidates of equal rank given in the order \<open>/B/x/RAW\<close>, \<open>/A/x/RAW\<close> come back
  in that order, although \<open>/A/x/RAW\<close> is the lexicographically smaller name.
\<close>

theorem sort_deletion_candidates_tie_counterexample:
  "sort_deletion_candidates
     [\<lparr>r_dataset = ''/B/x/RAW'', r_site = ''T2_A''\<rparr>, \<lparr>r_dataset = ''/A/x/RAW'', r_site = ''T2_A''\<rparr>]
     [''/A/x/RAW'' \<mapsto> \<lparr>global_usage_rank = 1\<rparr>, ''/B/x/RAW'' \<mapsto> \<lparr>global_usage_rank = 1\<rparr>]
   = Inr [\<lparr>r_dataset = ''/B/x/RAW'', r_site = ''T2_A''\<rparr>, \<lparr>r_dataset = ''/A/x/RAW'', r_site = ''T2_A''\<rparr>]
   \<and> ''/A/x/RAW'' < ''/B/x/RAW''"
  by (simp add: sort_deletion_candidates_def rank_of_def)

theorem sort_deletion_candidates_stable_witness:
  "list_all (\<lambda>r. [''/A'' \<mapsto> \<lparr>global_usage_rank = 3\<rparr>, ''/B'' \<mapsto> \<lparr>global_usage_rank = 1/10\<rparr>] (r_dataset r) \<noteq> None)
     [\<lparr>r_dataset = ''/B'', r_site = ''S1''\<rparr>, \<lparr>r_dataset = ''/A'', r_site = ''S1''\<rparr>, \<lparr>r_dataset = ''/B'', r_site = ''S2''\<rparr>]
   \<and> sort_deletion_candidates
     [\<lparr>r_dataset = ''/B'', r_site = ''S1''\<rparr>, \<lparr>r_dataset = ''/A'', r_site = ''S1''\<rparr>, \<lparr>r_dataset = ''/B'', r_site = ''S2''\<rparr>]
     [''/A'' \<mapsto> \<lparr>global_usage_rank = 3\<rparr>, ''/B'' \<mapsto> \<lparr>global_usage_rank = 1/10\<rparr>]
   = Inr [\<lparr>r_dataset = ''/A'', r_site = ''S1''\<rparr>, \<lparr>r_dataset = ''/B'', r_site = ''S1''\<rparr>, \<lparr>r_dataset = ''/B'', r_site = ''S2''\<rparr>]"
proof -
  let ?dd = "[''/A'' \<mapsto> \<lparr>global_usage_rank = 3\<rparr>, ''/B'' \<mapsto> \<lparr>global_usage_rank = 1/10\<rparr>]"
  let ?xs = "[\<lparr>r_dataset = ''/B'', r_site = ''S1''\<rparr>, \<lparr>r_dataset = ''/A'', r_site = ''S1''\<rparr>, \<lparr>r_dataset = ''/B'', r_site = ''S2''\<rparr>]"
  have h: "list_all (\<lambda>r. ?dd (r_dataset r) \<noteq> None) ?xs" by simp
  from sort_deletion_candidates_stable [OF h]
  obtain ys where ys: "sort_deletion_candidates ?xs ?dd = Inr ys" by blast
  moreover have "sort_deletion_candidates ?xs ?dd
     = Inr [\<lparr>r_dataset = ''/A'', r_site = ''S1''\<rparr>, \<lparr>r_dataset = ''/B'', r_site = ''S1''\<rparr>, \<lparr>r_dataset = ''/B'', r_site = ''S2''\<rparr>]"
    by (simp add: sort_deletion_candidates_def rank_of_def)
  ultimately show ?thesis using h by simp
qed

section \<open>RESTService.make_request\<close>

lemma request_loop_exhausted:
  "int (length excs) + int (length es) = n \<Longrightarrow>
   \<forall>j < length es. try_k (length excs + j) = Inl (es ! j) \<Longrightarrow>
   request_loop n try_k excs =
     Some (length excs + length es,
           [LogError ''Too many failed attempts in webservice'', LogErrorExceptions (excs @ es)],
           Inl (''RuntimeError'', ''webservice too many attempts''))"
proof (induction es arbitrary: excs)
  case Nil
  then show ?case by (subst request_loop.simps) simp
next
  case (Cons e es)
  from Cons.prems(2) have head: "try_k (length excs) = Inl e" by fastforce
  have "int (length (excs @ [e])) + int (length es) = n"
    using Cons.prems(1) by simp
  moreover have "\<forall>j < length es. try_k (length (excs @ [e]) + j) = Inl (es ! j)"
  proof (intro allI impI)
    fix j assume "j < length es"
    then have "try_k (length excs + Suc j) = Inl ((e # es) ! Suc j)"
      using Cons.prems(2) by (metis Suc_less_eq length_Cons)
    then show "try_k (length (excs @ [e]) + j) = Inl (es ! j)" by simp
  qed
  ultimately have "request_loop n try_k (excs @ [e]) =
     Some (length (excs @ [e]) + length es,
           [LogError ''Too many failed attempts in webservice'', LogErrorExceptions ((excs @ [e]) @ es)],
           Inl (''RuntimeError'', ''webservice too many attempts''))"
    by (rule Cons.IH)
  moreover have "int (length excs) \<noteq> n" using Cons.prems(1) by simp
  ultimately show ?case using head by (subst request_loop.simps) simp
qed

lemma request_loop_success:
  "\<forall>j < d. int (length excs + j) \<noteq> n \<and> isl (try_k (length excs + j)) \<Longrightarrow>
   int (length excs + d) \<noteq> n \<Longrightarrow>
   try_k (length excs + d) = Inr body \<Longrightarrow>
   request_loop n try_k excs = Some (Suc (length excs + d), [], Inr body)"
proof (induction d arbitrary: excs)
  case 0
  then show ?case by (subst request_loop.simps) simp
next
  case (Suc d)
  from Suc.prems(1) have ne: "int (length excs) \<noteq> n" and "isl (try_k (length excs))"
    by (metis add.right_neutral zero_less_Suc)+
  then obtain e where head: "try_k (length excs) = Inl e" by (auto simp: isl_def)
  have "request_loop n try_k (excs @ [e]) = Some (Suc (length (excs @ [e]) + d), [], Inr body)"
  proof (rule Suc.IH)
    show "\<forall>j<d. int (length (excs @ [e]) + j) \<noteq> n \<and> isl (try_k (length (excs @ [e]) + j))"
    proof (intro allI impI)
      fix j assume "j < d"
      then have "Suc j < Suc d" by simp
      with Suc.prems(1) have "int (length excs + Suc j) \<noteq> n \<and> isl (try_k (length excs + Suc j))"
        by blast
      then show "int (length (excs @ [e]) + j) \<noteq> n \<and> isl (try_k (length (excs @ [e]) + j))"
        by simp
    qed
    show "int (length (excs @ [e]) + d) \<noteq> n" using Suc.prems(2) by simp
    show "try_k (length (excs @ [e]) + d) = Inr body" using Suc.prems(3) by simp
  qed
  with ne head show ?case by (subst request_loop.simps) simp
qed


text \<open>
  Claim C1, as the code has it. With \<open>num_attempts = N \<ge> 0\<close>: if the attempts before
  attempt \<open>k < N\<close> all raise and attempt \<open>k\<close> returns, \<open>make_request\<close> returns the
  decoded body of that attempt after \<open>k + 1\<close> attempts; if the first \<open>N\<close> attempts all
  raise, it makes exactly \<open>N\<close> attempts and raises
  \<open>RuntimeError('webservice too many attempts')\<close>. The (exception type, value) pairs,
  one per failed attempt and in order, are written to the error log; the exception
  raised does not carry them.
\<close>

theorem make_request_retries:
  assumes "0 \<le> num_attempts"
  shows "(int k < num_attempts
          \<and> (\<forall>j < k. isl (attempt accept json_loads (server j)))
          \<and> attempt accept json_loads (server k) = Inr body
          \<longrightarrow> make_request num_attempts accept json_loads server = Some (Suc k, [], Inr body))
       \<and> ((\<forall>j < nat num_attempts. attempt accept json_loads (server j) = Inl (es j))
          \<longrightarrow> make_request num_attempts accept json_loads server =
                Some (nat num_attempts,
                      [LogError ''Too many failed attempts in webservice'',
                       LogErrorExceptions (map es [0 ..< nat num_attempts])],
                      Inl (''RuntimeError'', ''webservice too many attempts'')))"
proof (intro conjI impI)
  let ?att = "\<lambda>j. attempt accept json_loads (server j)"
  assume a: "int k < num_attempts \<and> (\<forall>j < k. isl (?att j)) \<and> ?att k = Inr body"
  have "request_loop num_attempts ?att [] = Some (Suc (length ([] :: exc_info list) + k), [], Inr body)"
  proof (rule request_loop_success)
    show "\<forall>j<k. int (length ([] :: exc_info list) + j) \<noteq> num_attempts
        \<and> isl (?att (length ([] :: exc_info list) + j))"
      using a by auto
    show "int (length ([] :: exc_info list) + k) \<noteq> num_attempts" using a by simp
    show "?att (length ([] :: exc_info list) + k) = Inr body" using a by simp
  qed
  then show "make_request num_attempts accept json_loads server = Some (Suc k, [], Inr body)"
    by (simp add: make_request_def)
next
  let ?att = "\<lambda>j. attempt accept json_loads (server j)"
  let ?es = "map es [0 ..< nat num_attempts]"
  assume a: "\<forall>j < nat num_attempts. ?att j = Inl (es j)"
  have "request_loop num_attempts ?att [] =
     Some (length ([] :: exc_info list) + length ?es,
           [LogError ''Too many failed attempts in webservice'', LogErrorExceptions ([] @ ?es)],
           Inl (''RuntimeError'', ''webservice too many attempts''))"
  proof (rule request_loop_exhausted)
    show "int (length ([] :: exc_info list)) + int (length ?es) = num_attempts"
      using assms by simp
    show "\<forall>j < length ?es. ?att (length ([] :: exc_info list) + j) = Inl (?es ! j)"
      using a by simp
  qed
  then show "make_request num_attempts accept json_loads server =
                Some (nat num_attempts,
                      [LogError ''Too many failed attempts in webservice'',
                       LogErrorExceptions (map es [0 ..< nat num_attempts])],
                      Inl (''RuntimeError'', ''webservice too many attempts''))"
    by (simp add: make_request_def)
qed

text \<open>
  With \<open>num_attempts = 3\<close> and a server answering 500 three times, the exception that
  leaves \<open>make_request\<close> is a \<open>RuntimeError\<close> with a fixed message, not a
  \<open>TransientNetworkError\<close>; the three caught exceptions are in the log only.
\<close>

theorem make_request_exhausted_counterexample:
  "make_request 3 ''application/json'' Inr (scripted_server [http_500, http_500, http_500])
   = Some (3, [LogError ''Too many failed attempts in webservice'',
               LogErrorExceptions [(''HTTPError'', ''HTTP Error 500: Internal Server Error''),
                                   (''HTTPError'', ''HTTP Error 500: Internal Server Error''),
                                   (''HTTPError'', ''HTTP Error 500: Internal Server Error'')]],
           Inl (''RuntimeError'', ''webservice too many attempts''))
   \<and> ''RuntimeError'' \<noteq> ''TransientNetworkError''"
  by (simp add: make_request_def request_loop.simps attempt_def scripted_server_def http_500_def)

theorem make_request_retries_witness:
  "(0::int) \<le> 3
   \<and> make_request 3 ''application/json'' Inr (scripted_server [http_500, http_500, Inr ''[1]''])
     = Some (3, [], Inr ''[1]'')
   \<and> make_request 3 ''application/json'' Inr (scripted_server [http_500, http_500, http_500])
     = Some (3, [LogError ''Too many failed attempts in webservice'',
               LogErrorExceptions [(''HTTPError'', ''HTTP Error 500: Internal Server Error''),
                                   (''HTTPError'', ''HTTP Error 500: Internal Server Error''),
                                   (''HTTPError'', ''HTTP Error 500: Internal Server Error'')]],
           Inl (''RuntimeError'', ''webservice too many attempts''))"
proof (intro conjI)
  show n: "(0::int) \<le> 3" by simp
  let ?ok = "scripted_server [http_500, http_500, Inr ''[1]'']"
  have ok: "int 2 < 3 \<and> (\<forall>j < 2. isl (attempt ''application/json'' Inr (?ok j)))
      \<and> attempt ''application/json'' Inr (?ok 2) = (Inr ''[1]'' :: exc_info + string)"
    by (simp add: attempt_def scripted_server_def http_500_def less_Suc_eq numeral_2_eq_2)
  from make_request_retries [OF n, where k = 2 and accept = "''application/json''"
      and json_loads = Inr and server = ?ok and body = "''[1]''", THEN conjunct1, THEN mp, OF ok]
  show "make_request 3 ''application/json'' Inr ?ok = Some (3, [], Inr ''[1]'')"
    by simp
  let ?ko = "scripted_server [http_500, http_500, http_500]"
  have ko: "\<forall>j < nat 3. attempt ''application/json'' Inr (?ko j)
      = (Inl ((\<lambda>j. (''HTTPError'', ''HTTP Error 500: Internal Server Error'')) j) :: exc_info + string)"
    by (simp add: attempt_def scripted_server_def http_500_def less_Suc_eq numeral_3_eq_3)
  from make_request_retries [OF n, where accept = "''application/json''"
      and json_loads = Inr and server = ?ko
      and es = "\<lambda>j. (''HTTPError'', ''HTTP Error 500: Internal Server Error'')",
      THEN conjunct2, THEN mp, OF ko]
  show "make_request 3 ''application/json'' Inr ?ko
     = Some (3, [LogError ''Too many failed attempts in webservice'',
               LogErrorExceptions [(''HTTPError'', ''HTTP Error 500: Internal Server Error''),
                                   (''HTTPError'', ''HTTP Error 500: Internal Server Error''),
                                   (''HTTPError'', ''HTTP Error 500: Internal Server Error'')]],
           Inl (''RuntimeError'', ''webservice too many attempts''))"
    by (simp add: numeral_3_eq_3)
qed

section \<open>Group of a dataset replica after the merge\<close>

lemma gname_list_keyed:
  assumes "\<forall>(k, g) \<in> set groups. g_name g = Some k"
  shows "set (gname_list_of fnmatch groups group_filt) \<subseteq> Some ` fst ` set groups"
proof
  fix x assume "x \<in> set (gname_list_of fnmatch groups group_filt)"
  then obtain k g where kg: "(k, g) \<in> set groups" and x: "x = g_name g"
    by (auto simp: gname_list_of_def all_groups_of_def)
  from assms kg have "g_name g = Some k" by blast
  with kg x show "x \<in> Some ` fst ` set groups" by force
qed





lemma merge_group_skips_leading_null:
  "merge_group None brs = merge_group None (dropWhile (\<lambda>br. br_group br = None) brs)"
  by (induction brs) auto






section \<open>Block replicas of groups unknown to the local group set\<close>

lemma map_of_None_not_key: "map_of groups gname = None \<Longrightarrow> gname \<notin> fst ` set groups"
  by (simp add: map_of_eq_None_iff)

text \<open>A warning is logged for no other entry.\<close>

lemma warning_only_for_unregistered:
  assumes "process_replica_entry sites groups gname_list ds_name blk st e = Inr st'"
    and "warnings st' \<noteq> warnings st"
  shows "\<exists>gname. re_group e = Some gname \<and> Some gname \<in> set gname_list
           \<and> map_of groups gname = None"
  using assms
  by (auto simp: process_replica_entry_def Let_def split: if_splits option.splits)

text \<open>
  Claim C3, as the code has it. A replica entry whose group name is not in
  \<open>gname_list\<close> is skipped: the state is unchanged, so no \<open>BlockReplica\<close> is built and
  no warning is logged. When every group of the groups map is stored under its own
  name, this is the fate of every entry whose group is not in the map. The branch that
  logs the warning and builds the \<open>BlockReplica\<close> with \<open>group = None\<close> is taken only
  for a name that is in \<open>gname_list\<close> and yet is not a key of the map.
\<close>

theorem unknown_group_replica_skipped:
  "(re_group e \<notin> set gname_list
      \<longrightarrow> process_replica_entry sites groups gname_list ds_name blk st e = Inr st)
   \<and> ((\<forall>(k, g) \<in> set groups. g_name g = Some k) \<and> re_group e = Some gname
       \<and> map_of groups gname = None
      \<longrightarrow> process_replica_entry sites groups (gname_list_of fnmatch groups group_filt)
            ds_name blk st e = Inr st)
   \<and> (re_group e = Some gname \<and> Some gname \<in> set gname_list \<and> map_of groups gname = None
       \<and> map_of sites (re_node e) = Some s
      \<longrightarrow> (\<exists>st' dr. process_replica_entry sites groups gname_list ds_name blk st e = Inr st'
            \<and> warnings st' = warnings st @ [(gname, b_name blk)]
            \<and> map_of (dataset_replicas st') (s_name s) = Some dr
            \<and> dr_block_replicas dr \<noteq> []
            \<and> br_block (last (dr_block_replicas dr)) = blk
            \<and> br_group (last (dr_block_replicas dr)) = None))"
proof (intro conjI impI)
  assume "re_group e \<notin> set gname_list"
  then show "process_replica_entry sites groups gname_list ds_name blk st e = Inr st"
    by (simp add: process_replica_entry_def)
next
  assume a: "(\<forall>(k, g) \<in> set groups. g_name g = Some k) \<and> re_group e = Some gname
       \<and> map_of groups gname = None"
  then have "gname \<notin> fst ` set groups" by (simp add: map_of_None_not_key)
  moreover have "set (gname_list_of fnmatch groups group_filt) \<subseteq> Some ` fst ` set groups"
    using a by (intro gname_list_keyed) simp
  ultimately have "Some gname \<notin> set (gname_list_of fnmatch groups group_filt)"
    by blast
  with a have "re_group e \<notin> set (gname_list_of fnmatch groups group_filt)"
    by simp
  then show "process_replica_entry sites groups (gname_list_of fnmatch groups group_filt)
            ds_name blk st e = Inr st"
    by (simp add: process_replica_entry_def)
next
  assume a: "re_group e = Some gname \<and> Some gname \<in> set gname_list \<and> map_of groups gname = None
       \<and> map_of sites (re_node e) = Some s"
  then show "\<exists>st' dr. process_replica_entry sites groups gname_list ds_name blk st e = Inr st'
            \<and> warnings st' = warnings st @ [(gname, b_name blk)]
            \<and> map_of (dataset_replicas st') (s_name s) = Some dr
            \<and> dr_block_replicas dr \<noteq> []
            \<and> br_block (last (dr_block_replicas dr)) = blk
            \<and> br_group (last (dr_block_replicas dr)) = None"
    by (simp add: process_replica_entry_def Let_def update_conv')
qed


text \<open>
  The scenario of the claim: the catalog reports a replica of block \<open>b1\<close> of \<open>/D\<close>
  owned by \<open>Unknown\<close>, which is not in the groups map. The entry is skipped: no
  replica is built and nothing is logged.
\<close>

theorem unknown_group_replica_counterexample:
  "process_replica_entry example_sites example_groups
     (gname_list_of glob_match example_groups ''*'') ''/D'' \<lparr>b_name = ''b1'', b_size = 10\<rparr>
     empty_pass2 unknown_group_entry
   = Inr \<lparr>dataset_replicas = [], warnings = []\<rparr>"
  by (simp add: process_replica_entry_def gname_list_of_def all_groups_of_def example_groups_def
      unknown_group_entry_def empty_pass2_def)

theorem unknown_group_replica_skipped_witness:
  "process_replica_entry example_sites example_groups [Some ''AnalysisOps''] ''/D''
       \<lparr>b_name = ''b1'', b_size = 10\<rparr> empty_pass2 unknown_group_entry = Inr empty_pass2
   \<and> process_replica_entry example_sites example_groups
       (gname_list_of glob_match example_groups ''*'') ''/D''
       \<lparr>b_name = ''b1'', b_size = 10\<rparr> empty_pass2 unknown_group_entry = Inr empty_pass2
   \<and> (\<exists>st' dr. process_replica_entry example_sites example_groups [Some ''Unknown''] ''/D''
           \<lparr>b_name = ''b1'', b_size = 10\<rparr> empty_pass2 unknown_group_entry = Inr st'
         \<and> warnings st' = warnings empty_pass2 @ [(''Unknown'', b_name \<lparr>b_name = ''b1'', b_size = 10\<rparr>)]
         \<and> map_of (dataset_replicas st') (s_name \<lparr>s_name = ''T2_A'', s_group_quota = [(''AnalysisOps'', 500)]\<rparr>) = Some dr
         \<and> dr_block_replicas dr \<noteq> []
         \<and> br_block (last (dr_block_replicas dr)) = \<lparr>b_name = ''b1'', b_size = 10\<rparr>
         \<and> br_group (last (dr_block_replicas dr)) = None)"
proof (intro conjI)
  note inst = unknown_group_replica_skipped [where e = unknown_group_entry and gname = "''Unknown''"
      and groups = example_groups and sites = example_sites]
  have h1: "re_group unknown_group_entry \<notin> set [Some ''AnalysisOps'']"
    by (simp add: unknown_group_entry_def)
  from inst [THEN conjunct1, THEN mp, OF h1]
  show "process_replica_entry example_sites example_groups [Some ''AnalysisOps''] ''/D''
       \<lparr>b_name = ''b1'', b_size = 10\<rparr> empty_pass2 unknown_group_entry = Inr empty_pass2" .
  have h2: "(\<forall>(k, g) \<in> set example_groups. g_name g = Some k)
      \<and> re_group unknown_group_entry = Some ''Unknown''
      \<and> map_of example_groups ''Unknown'' = None"
    by (simp add: unknown_group_entry_def example_groups_def)
  from inst [THEN conjunct2, THEN conjunct1, THEN mp, OF h2]
  show "process_replica_entry example_sites example_groups
       (gname_list_of glob_match example_groups ''*'') ''/D''
       \<lparr>b_name = ''b1'', b_size = 10\<rparr> empty_pass2 unknown_group_entry = Inr empty_pass2" .
  have h3: "re_group unknown_group_entry = Some ''Unknown''
      \<and> Some ''Unknown'' \<in> set [Some ''Unknown'']
      \<and> map_of example_groups ''Unknown'' = None
      \<and> map_of example_sites (re_node unknown_group_entry)
          = Some \<lparr>s_name = ''T2_A'', s_group_quota = [(''AnalysisOps'', 500)]\<rparr>"
    by (simp add: unknown_group_entry_def example_groups_def example_sites_def)
  from inst [THEN conjunct2, THEN conjunct2, THEN mp, OF h3]
  show "\<exists>st' dr. process_replica_entry example_sites example_groups [Some ''Unknown''] ''/D''
           \<lparr>b_name = ''b1'', b_size = 10\<rparr> empty_pass2 unknown_group_entry = Inr st'
         \<and> warnings st' = warnings empty_pass2 @ [(''Unknown'', b_name \<lparr>b_name = ''b1'', b_size = 10\<rparr>)]
         \<and> map_of (dataset_replicas st') (s_name \<lparr>s_name = ''T2_A'', s_group_quota = [(''AnalysisOps'', 500)]\<rparr>) = Some dr
         \<and> dr_block_replicas dr \<noteq> []
         \<and> br_block (last (dr_block_replicas dr)) = \<lparr>b_name = ''b1'', b_size = 10\<rparr>
         \<and> br_group (last (dr_block_replicas dr)) = None" .
qed

section \<open>Chunks of the replica query\<close>

lemma charsets_shape_upto_12:
  "charsets_shape 1" "charsets_shape 2" "charsets_shape 3" "charsets_shape 4"
  "charsets_shape 5" "charsets_shape 6" "charsets_shape 7" "charsets_shape 8"
  "charsets_shape 9" "charsets_shape 10" "charsets_shape 11" "charsets_shape 12"
  by code_simp+

lemma chunk_size_of_range:
  assumes "500 \<le> total_quota"
  shows "1 \<le> chunk_size_of total_quota \<and> chunk_size_of total_quota \<le> 12"
proof -
  from assms have d: "5 \<le> total_quota div 100" by simp
  then have "62 div (total_quota div 100) \<le> 62 div 5"
    by (intro zdiv_mono2) simp_all
  then show ?thesis by (simp add: chunk_size_of_def)
qed

lemma charsets_shape_chunk_size:
  assumes "500 \<le> total_quota"
  shows "charsets_shape (chunk_size_of total_quota)"
proof -
  define c where "c = chunk_size_of total_quota"
  from chunk_size_of_range [OF assms] have "1 \<le> c \<and> c \<le> 12"
    by (simp add: c_def)
  then have "c = 1 \<or> c = 2 \<or> c = 3 \<or> c = 4 \<or> c = 5 \<or> c = 6 \<or> c = 7 \<or> c = 8
      \<or> c = 9 \<or> c = 10 \<or> c = 11 \<or> c = 12"
    by arith
  then have "chunk_size_of total_quota \<in> {1, 2, 3, 4, 5, 6, 7, 8, 9, 10, 11, 12}"
    by (simp add: c_def)
  then show ?thesis
    using charsets_shape_upto_12 by auto
qed


lemma chunk_patterns_site_items:
  "500 \<le> total_quota_of site \<Longrightarrow>
   chunk_patterns (site_items site gname_list)
     = map (map (\<lambda>c. ''/'' @ [c] @ ''*/*/*'')) (charsets (chunk_size_of (total_quota_of site)))"
  by (simp add: chunk_patterns_def site_items_def Let_def comp_def)

text \<open>
  Claim C4, as the code has it. With an unrestricted dataset filter the items of all
  selected sites are run by \<open>parallel_exec\<close> with \<open>min(64, len(items))\<close> workers. A site
  with \<open>total_quota \<ge> 500\<close> contributes, for \<open>c = max(62 / (total_quota / 100), 1)\<close>,
  \<open>62 div c\<close> chunks of exactly \<open>c\<close> first-character patterns and, when \<open>c\<close> does not
  divide 62, one last chunk of \<open>62 mod c\<close> patterns; the chunks together name each of
  the 62 characters once. A site with \<open>total_quota < 500\<close> contributes the single
  item with pattern \<open>/*/*/*\<close>. A restricted filter makes one direct call, hence one
  query.
\<close>

theorem replica_queries_chunking:
  "(dataset_filt = ''/*/*/*'' \<or> dataset_filt = '''' \<or> dataset_filt = ''*'' \<longrightarrow>
      replica_queries fnmatch sites groups site_filt group_filt dataset_filt
        = ParallelExec
            (concat (map (\<lambda>site. site_items site (gname_list_of fnmatch groups group_filt))
                         (all_sites_of fnmatch sites site_filt)))
            (min 64 (length
              (concat (map (\<lambda>site. site_items site (gname_list_of fnmatch groups group_filt))
                           (all_sites_of fnmatch sites site_filt))))))
   \<and> (500 \<le> total_quota_of site \<longrightarrow>
        map length (chunk_patterns (site_items site gname_list))
          = replicate (62 div nat (chunk_size_of (total_quota_of site)))
                      (nat (chunk_size_of (total_quota_of site)))
            @ (if 62 mod nat (chunk_size_of (total_quota_of site)) = 0 then []
               else [62 mod nat (chunk_size_of (total_quota_of site))])
        \<and> concat (chunk_patterns (site_items site gname_list))
          = map (\<lambda>c. ''/'' @ [c] @ ''*/*/*'') characters
        \<and> (\<forall>item \<in> set (site_items site gname_list).
             fst item = [site] \<and> fst (snd item) = gname_list))
   \<and> (total_quota_of site < 500 \<longrightarrow>
        site_items site gname_list = [([site], gname_list, [''/*/*/*''])])
   \<and> (\<not> (dataset_filt = ''/*/*/*'' \<or> dataset_filt = '''' \<or> dataset_filt = ''*'') \<longrightarrow>
        replica_queries fnmatch sites groups site_filt group_filt dataset_filt
          = DirectCall (all_sites_of fnmatch sites site_filt,
                        gname_list_of fnmatch groups group_filt, [dataset_filt])
        \<and> num_queries (replica_queries fnmatch sites groups site_filt group_filt dataset_filt) = 1)"
proof (intro conjI impI)
  assume "dataset_filt = ''/*/*/*'' \<or> dataset_filt = '''' \<or> dataset_filt = ''*''"
  then show "replica_queries fnmatch sites groups site_filt group_filt dataset_filt
        = ParallelExec
            (concat (map (\<lambda>site. site_items site (gname_list_of fnmatch groups group_filt))
                         (all_sites_of fnmatch sites site_filt)))
            (min 64 (length
              (concat (map (\<lambda>site. site_items site (gname_list_of fnmatch groups group_filt))
                           (all_sites_of fnmatch sites site_filt)))))"
    unfolding replica_queries_def Let_def by (simp only: if_True)
next
  assume q: "500 \<le> total_quota_of site"
  let ?c = "chunk_size_of (total_quota_of site)"
  from charsets_shape_chunk_size [OF q]
  have len: "map length (charsets ?c)
       = replicate (62 div nat ?c) (nat ?c) @ (if 62 mod nat ?c = 0 then [] else [62 mod nat ?c])"
    and cat: "concat (charsets ?c) = characters"
    by (simp_all add: charsets_shape_def)
  have "map length (chunk_patterns (site_items site gname_list)) = map length (charsets ?c)"
    by (simp add: chunk_patterns_site_items [OF q] comp_def)
  with len show "map length (chunk_patterns (site_items site gname_list))
          = replicate (62 div nat ?c) (nat ?c)
            @ (if 62 mod nat ?c = 0 then [] else [62 mod nat ?c])"
    by simp
  have "concat (chunk_patterns (site_items site gname_list))
      = map (\<lambda>c. ''/'' @ [c] @ ''*/*/*'') (concat (charsets ?c))"
    by (simp add: chunk_patterns_site_items [OF q] map_concat)
  with cat show "concat (chunk_patterns (site_items site gname_list))
          = map (\<lambda>c. ''/'' @ [c] @ ''*/*/*'') characters"
    by simp
  show "\<forall>item \<in> set (site_items site gname_list).
             fst item = [site] \<and> fst (snd item) = gname_list"
    using q by (auto simp: site_items_def Let_def)
next
  assume "total_quota_of site < 500"
  then show "site_items site gname_list = [([site], gname_list, [''/*/*/*''])]"
    by (simp add: site_items_def Let_def)
next
  assume r: "\<not> (dataset_filt = ''/*/*/*'' \<or> dataset_filt = '''' \<or> dataset_filt = ''*'')"
  then show d: "replica_queries fnmatch sites groups site_filt group_filt dataset_filt
          = DirectCall (all_sites_of fnmatch sites site_filt,
                        gname_list_of fnmatch groups group_filt, [dataset_filt])"
    unfolding replica_queries_def Let_def by (simp only: if_False)
  show "num_queries (replica_queries fnmatch sites groups site_filt group_filt dataset_filt) = 1"
    by (simp only: d num_queries.simps)
qed

text \<open>
  A site with \<open>total_quota = 500\<close> has \<open>chunk_size = 12\<close>; its last chunk holds 2
  patterns, not 12.
\<close>

theorem site_items_last_chunk_counterexample:
  "chunk_size_of (total_quota_of \<lparr>s_name = ''T2_A'', s_group_quota = [(''AnalysisOps'', 500)]\<rparr>) = 12
   \<and> map length (chunk_patterns
        (site_items \<lparr>s_name = ''T2_A'', s_group_quota = [(''AnalysisOps'', 500)]\<rparr>
           [Some ''AnalysisOps'']))
     = [12, 12, 12, 12, 12, 2]"
  by code_simp


theorem replica_queries_chunking_witness:
  "replica_queries glob_match example_sites example_groups ''*'' ''*'' ''*''
     = ParallelExec
         (concat (map (\<lambda>site. site_items site (gname_list_of glob_match example_groups ''*''))
                      (all_sites_of glob_match example_sites ''*'')))
         (min 64 (length
           (concat (map (\<lambda>site. site_items site (gname_list_of glob_match example_groups ''*''))
                        (all_sites_of glob_match example_sites ''*'')))))
   \<and> map length (chunk_patterns
        (site_items \<lparr>s_name = ''T2_A'', s_group_quota = [(''AnalysisOps'', 500)]\<rparr>
           [Some ''AnalysisOps'']))
     = [12, 12, 12, 12, 12, 2]
   \<and> site_items \<lparr>s_name = ''T3_B'', s_group_quota = [(''AnalysisOps'', 100)]\<rparr> [Some ''AnalysisOps'']
     = [([\<lparr>s_name = ''T3_B'', s_group_quota = [(''AnalysisOps'', 100)]\<rparr>],
         [Some ''AnalysisOps''], [''/*/*/*''])]
   \<and> replica_queries glob_match example_sites example_groups ''*'' ''*'' ''/A/*/*''
     = DirectCall (all_sites_of glob_match example_sites ''*'',
                   gname_list_of glob_match example_groups ''*'', [''/A/*/*''])"
proof (intro conjI)
  let ?big = "\<lparr>s_name = ''T2_A'', s_group_quota = [(''AnalysisOps'', 500)]\<rparr>"
  let ?small = "\<lparr>s_name = ''T3_B'', s_group_quota = [(''AnalysisOps'', 100)]\<rparr>"
  have h1: "''*'' = ''/*/*/*'' \<or> ''*'' = '''' \<or> ''*'' = ''*''" by simp
  from replica_queries_chunking [where dataset_filt = "''*''" and fnmatch = glob_match
      and sites = example_sites and groups = example_groups and site_filt = "''*''"
      and group_filt = "''*''", THEN conjunct1, THEN mp, OF h1]
  show "replica_queries glob_match example_sites example_groups ''*'' ''*'' ''*''
     = ParallelExec
         (concat (map (\<lambda>site. site_items site (gname_list_of glob_match example_groups ''*''))
                      (all_sites_of glob_match example_sites ''*'')))
         (min 64 (length
           (concat (map (\<lambda>site. site_items site (gname_list_of glob_match example_groups ''*''))
                        (all_sites_of glob_match example_sites ''*'')))))" .
  have h2: "500 \<le> total_quota_of ?big" by (simp add: total_quota_of_def)
  have c: "chunk_size_of (total_quota_of ?big) = 12"
    by (simp add: total_quota_of_def chunk_size_of_def)
  have r: "replicate (62 div nat 12) (nat 12) @ (if 62 mod nat 12 = 0 then [] else [62 mod nat 12])
      = [12, 12, 12, 12, 12, 2::nat]"
    by code_simp
  from replica_queries_chunking [where site = ?big and gname_list = "[Some ''AnalysisOps'']",
      THEN conjunct2, THEN conjunct1, THEN mp, OF h2, THEN conjunct1]
  show "map length (chunk_patterns (site_items ?big [Some ''AnalysisOps'']))
      = [12, 12, 12, 12, 12, 2]"
    by (simp only: c r)
  have h3: "total_quota_of ?small < 500" by (simp add: total_quota_of_def)
  from replica_queries_chunking [where site = ?small and gname_list = "[Some ''AnalysisOps'']",
      THEN conjunct2, THEN conjunct2, THEN conjunct1, THEN mp, OF h3]
  show "site_items ?small [Some ''AnalysisOps'']
     = [([?small], [Some ''AnalysisOps''], [''/*/*/*''])]" .
  have h4: "\<not> (''/A/*/*'' = ''/*/*/*'' \<or> ''/A/*/*'' = '''' \<or> ''/A/*/*'' = ''*'')" by simp
  from replica_queries_chunking [where dataset_filt = "''/A/*/*''" and fnmatch = glob_match
      and sites = example_sites and groups = example_groups and site_filt = "''*''"
      and group_filt = "''*''", THEN conjunct2, THEN conjunct2, THEN conjunct2, THEN mp, OF h4,
      THEN conjunct1]
  show "replica_queries glob_match example_sites example_groups ''*'' ''*'' ''/A/*/*''
     = DirectCall (all_sites_of glob_match example_sites ''*'',
                   gname_list_of glob_match example_groups ''*'', [''/A/*/*''])" .
qed

section \<open>Tape copies\<close>

lemma append_to_chunks_concat:
  assumes "chunks \<noteq> []"
  shows "append_to_chunks n chunks x \<noteq> []
       \<and> concat (append_to_chunks n chunks x) = concat chunks @ [x]"
proof -
  from assms have "concat (butlast chunks @ [last chunks]) = concat chunks" by simp
  then have "concat (butlast chunks) @ last chunks = concat chunks" by simp
  then show ?thesis by (simp add: append_to_chunks_def Let_def)
qed

lemma foldl_append_to_chunks_concat:
  "chunks \<noteq> [] \<Longrightarrow>
   foldl (append_to_chunks n) chunks xs \<noteq> []
   \<and> concat (foldl (append_to_chunks n) chunks xs) = concat chunks @ xs"
proof (induction xs arbitrary: chunks)
  case Nil
  then show ?case by simp
next
  case (Cons x xs)
  from append_to_chunks_concat [OF Cons.prems, of n x]
  have ne: "append_to_chunks n chunks x \<noteq> []"
    and cat: "concat (append_to_chunks n chunks x) = concat chunks @ [x]" by simp_all
  from Cons.IH [OF ne] cat show ?case by simp
qed

lemma concat_dataset_chunks: "concat (dataset_chunks n xs) = xs"
proof -
  let ?cs = "foldl (append_to_chunks n) [[]] xs"
  have ne: "?cs \<noteq> []" and cat: "concat ?cs = xs"
    using foldl_append_to_chunks_concat [of "[[]]" n xs] by simp_all
  from ne have "concat (butlast ?cs) @ last ?cs = concat ?cs"
    by (metis append_butlast_last_id concat.simps(1) concat.simps(2) concat_append append_Nil2)
  with cat show ?thesis by (auto simp: dataset_chunks_def Let_def)
qed






section \<open>Incremental mutators of the store\<close>

text \<open>
  Claim C9, as the code has it. Whatever the driver does, every incremental mutator
  that tests the id of a parent returns the state it was given when that id is 0:
  the database is unchanged and no statement has been issued. These are \<open>save_block\<close>
  and \<open>delete_block\<close> (dataset id), \<open>save_file\<close> (dataset or block id),
  \<open>save_blockreplica\<close> (block or site id), \<open>delete_blockreplica\<close> (dataset, block or
  site id), \<open>save_datasetreplica\<close> and \<open>delete_datasetreplica\<close> (dataset or site id)
  and \<open>save_sitepartition\<close> (site id). \<open>delete_file\<close> tests no id: it always issues
  its \<open>DELETE\<close> by file name.
\<close>

theorem save_unsaved_parent_noop:
  "(blk_dataset_id blk = 0 \<longrightarrow>
      save_block query st blk = (st, blk) \<and> delete_block query st blk = st)
   \<and> (blk_dataset_id (f_block lfile) = 0 \<or> blk_id (f_block lfile) = 0
        \<longrightarrow> save_file query st lfile = (st, lfile))
   \<and> (blk_id (sbr_block block_replica) = 0 \<or> sbr_site_id block_replica = 0
        \<longrightarrow> save_blockreplica query st block_replica = st)
   \<and> (blk_dataset_id (sbr_block block_replica) = 0 \<or> blk_id (sbr_block block_replica) = 0
        \<or> sbr_site_id block_replica = 0
        \<longrightarrow> delete_blockreplica query select st block_replica = Inr st)
   \<and> (sdr_dataset_id dataset_replica = 0 \<or> sdr_site_id dataset_replica = 0
        \<longrightarrow> save_datasetreplica query st dataset_replica = st
          \<and> delete_datasetreplica query st dataset_replica = st)
   \<and> (sp_site_id site_partition = 0
        \<longrightarrow> save_sitepartition query select st site_partition = st)
   \<and> delete_file query (db, issued) lfile
       = (snd (query (DeleteWhere ''files'' [(''name'', SqlStr (f_lfn lfile))]) db),
          issued @ [DeleteWhere ''files'' [(''name'', SqlStr (f_lfn lfile))]])"
proof (intro conjI impI)
  assume "blk_dataset_id blk = 0"
  then show "save_block query st blk = (st, blk)"
    by (simp add: save_block_def)
next
  assume "blk_dataset_id blk = 0"
  then show "delete_block query st blk = st"
    by (simp add: delete_block_def)
next
  assume "blk_dataset_id (f_block lfile) = 0 \<or> blk_id (f_block lfile) = 0"
  then show "save_file query st lfile = (st, lfile)"
    by (auto simp: save_file_def Let_def)
next
  assume "blk_id (sbr_block block_replica) = 0 \<or> sbr_site_id block_replica = 0"
  then show "save_blockreplica query st block_replica = st"
    by (auto simp: save_blockreplica_def Let_def)
next
  assume "blk_dataset_id (sbr_block block_replica) = 0 \<or> blk_id (sbr_block block_replica) = 0
        \<or> sbr_site_id block_replica = 0"
  then show "delete_blockreplica query select st block_replica = Inr st"
    by (auto simp: delete_blockreplica_def Let_def)
next
  assume "sdr_dataset_id dataset_replica = 0 \<or> sdr_site_id dataset_replica = 0"
  then show "save_datasetreplica query st dataset_replica = st"
    by (auto simp: save_datasetreplica_def Let_def)
next
  assume "sdr_dataset_id dataset_replica = 0 \<or> sdr_site_id dataset_replica = 0"
  then show "delete_datasetreplica query st dataset_replica = st"
    by (auto simp: delete_datasetreplica_def Let_def)
next
  assume "sp_site_id site_partition = 0"
  then show "save_sitepartition query select st site_partition = st"
    by (simp add: save_sitepartition_def Let_def)
next
  show "delete_file query (db, issued) lfile
       = (snd (query (DeleteWhere ''files'' [(''name'', SqlStr (f_lfn lfile))]) db),
          issued @ [DeleteWhere ''files'' [(''name'', SqlStr (f_lfn lfile))]])"
    by (simp add: delete_file_def issue_def split: prod.splits)
qed

text \<open>
  \<open>delete_file\<close> on a file whose block and dataset are unsaved (both ids 0): a
  statement is issued, and the \<open>files\<close> row of that name is gone.
\<close>

theorem delete_file_unsaved_parent_counterexample:
  "blk_id (f_block unsaved_file) = 0 \<and> blk_dataset_id (f_block unsaved_file) = 0
   \<and> snd (delete_file (mysql_query store_unique_key store_auto_id no_other_sql)
             (database_with_file, []) unsaved_file)
     = [DeleteWhere ''files'' [(''name'', SqlStr ''/store/a.root'')]]
   \<and> database_with_file ''files''
     = [[(''id'', SqlInt 1), (''block_id'', SqlInt 7), (''dataset_id'', SqlInt 3),
         (''size'', SqlInt 5), (''name'', SqlStr ''/store/a.root'')]]
   \<and> fst (delete_file (mysql_query store_unique_key store_auto_id no_other_sql)
             (database_with_file, []) unsaved_file) ''files'' = []"
  by (simp add: delete_file_def issue_def unsaved_file_def unsaved_block_def
      database_with_file_def empty_database_def matches_def)

lemma save_datasetreplica_issues:
  "sdr_dataset_id dr \<noteq> 0 \<Longrightarrow> sdr_site_id dr \<noteq> 0 \<Longrightarrow>
   snd (save_datasetreplica query (db, issued) dr)
     = issued @ [InsertUpdate ''dataset_replicas'' [''dataset_id'', ''site_id'']
                   [SqlInt (int (sdr_dataset_id dr)), SqlInt (int (sdr_site_id dr))]]"
  by (simp add: save_datasetreplica_def insert_update_def issue_def Let_def split: prod.splits)

lemma save_block_issues:
  "blk_dataset_id blk \<noteq> 0 \<Longrightarrow>
   snd (fst (save_block query (db, issued) blk))
     = issued @ [InsertUpdate ''blocks''
                   [''dataset_id'', ''name'', ''size'', ''num_files'', ''is_open'', ''last_update'']
                   [SqlInt (int (blk_dataset_id blk)), SqlStr (blk_real_name blk),
                    SqlInt (blk_size blk), SqlInt (blk_num_files blk), SqlBool (blk_is_open blk),
                    SqlTime (blk_last_update blk)]]"
  by (simp add: save_block_def insert_update_def issue_def Let_def split: prod.splits)

lemma delete_block_issues:
  "blk_dataset_id blk \<noteq> 0 \<Longrightarrow>
   length (snd (delete_block query (db, issued) blk)) = Suc (length issued)"
  by (simp add: delete_block_def issue_def Let_def split: prod.splits)

text \<open>
  The partition of a site partition has no id that is tested: it is looked up by name,
  and when it is not in the table \<open>save_sitepartition\<close> returns after that one
  \<open>SELECT\<close>.
\<close>

lemma save_sitepartition_unsaved_partition:
  assumes "sp_subpartitions sp = None" and "sp_site_id sp \<noteq> 0"
    and "select ''SELECT `id` FROM `partitions` WHERE `name` = %s''
           [SqlStr (sp_partition_name sp)] db = []"
  shows "save_sitepartition query select (db, issued) sp
       = (db, issued @ [Sql ''SELECT `id` FROM `partitions` WHERE `name` = %s''
                          [SqlStr (sp_partition_name sp)]])"
  using assms by (simp add: save_sitepartition_def issue_select_def Let_def)

theorem save_unsaved_parent_noop_witness:
  "save_block (mysql_query store_unique_key store_auto_id no_other_sql) (empty_database, [])
       unsaved_block
     = ((empty_database, []), unsaved_block)
   \<and> delete_block (mysql_query store_unique_key store_auto_id no_other_sql)
       (empty_database, []) unsaved_block
     = (empty_database, [])
   \<and> save_file (mysql_query store_unique_key store_auto_id no_other_sql) (empty_database, [])
       unsaved_file
     = ((empty_database, []), unsaved_file)
   \<and> save_blockreplica (mysql_query store_unique_key store_auto_id no_other_sql)
       (empty_database, []) (partial_blockreplica\<lparr>sbr_block := unsaved_block\<rparr>)
     = (empty_database, [])
   \<and> delete_blockreplica (mysql_query store_unique_key store_auto_id no_other_sql) no_rows
       (empty_database, []) (partial_blockreplica\<lparr>sbr_block := unsaved_block\<rparr>)
     = Inr (empty_database, [])
   \<and> save_datasetreplica (mysql_query store_unique_key store_auto_id no_other_sql)
       (empty_database, []) unsaved_dataset_replica
     = (empty_database, [])
   \<and> delete_datasetreplica (mysql_query store_unique_key store_auto_id no_other_sql)
       (empty_database, []) unsaved_dataset_replica
     = (empty_database, [])
   \<and> save_sitepartition (mysql_query store_unique_key store_auto_id no_other_sql) no_rows
       (empty_database, []) unsaved_site_partition
     = (empty_database, [])"
proof (intro conjI)
  let ?q = "mysql_query store_unique_key store_auto_id no_other_sql"
  let ?st = "(empty_database, [] :: statement list)"
  let ?br = "partial_blockreplica\<lparr>sbr_block := unsaved_block\<rparr>"
  note inst = save_unsaved_parent_noop [where query = ?q and select = no_rows and st = ?st
      and blk = unsaved_block and lfile = unsaved_file and block_replica = ?br
      and dataset_replica = unsaved_dataset_replica and site_partition = unsaved_site_partition]
  have h1: "blk_dataset_id unsaved_block = 0"
    by (simp add: unsaved_block_def)
  have h2: "blk_dataset_id (f_block unsaved_file) = 0 \<or> blk_id (f_block unsaved_file) = 0"
    by (simp add: unsaved_file_def unsaved_block_def)
  have h3: "blk_id (sbr_block ?br) = 0 \<or> sbr_site_id ?br = 0"
    by (simp add: unsaved_block_def)
  have h3': "blk_dataset_id (sbr_block ?br) = 0 \<or> blk_id (sbr_block ?br) = 0
      \<or> sbr_site_id ?br = 0"
    by (simp add: unsaved_block_def)
  have h4: "sdr_dataset_id unsaved_dataset_replica = 0 \<or> sdr_site_id unsaved_dataset_replica = 0"
    by (simp add: unsaved_dataset_replica_def)
  have h5: "sp_site_id unsaved_site_partition = 0"
    by (simp add: unsaved_site_partition_def)
  from inst [THEN conjunct1, THEN mp, OF h1, THEN conjunct1]
  show "save_block ?q ?st unsaved_block = (?st, unsaved_block)" .
  from inst [THEN conjunct1, THEN mp, OF h1, THEN conjunct2]
  show "delete_block ?q ?st unsaved_block = ?st" .
  from inst [THEN conjunct2, THEN conjunct1, THEN mp, OF h2]
  show "save_file ?q ?st unsaved_file = (?st, unsaved_file)" .
  from inst [THEN conjunct2, THEN conjunct2, THEN conjunct1, THEN mp, OF h3]
  show "save_blockreplica ?q ?st ?br = ?st" .
  from inst [THEN conjunct2, THEN conjunct2, THEN conjunct2, THEN conjunct1, THEN mp, OF h3']
  show "delete_blockreplica ?q no_rows ?st ?br = Inr ?st" .
  from inst [THEN conjunct2, THEN conjunct2, THEN conjunct2, THEN conjunct2, THEN conjunct1,
      THEN mp, OF h4, THEN conjunct1]
  show "save_datasetreplica ?q ?st unsaved_dataset_replica = ?st" .
  from inst [THEN conjunct2, THEN conjunct2, THEN conjunct2, THEN conjunct2, THEN conjunct1,
      THEN mp, OF h4, THEN conjunct2]
  show "delete_datasetreplica ?q ?st unsaved_dataset_replica = ?st" .
  from inst [THEN conjunct2, THEN conjunct2, THEN conjunct2, THEN conjunct2, THEN conjunct2,
      THEN conjunct1, THEN mp, OF h5]
  show "save_sitepartition ?q no_rows ?st unsaved_site_partition = ?st" .
qed

section \<open>Sizes of block replicas in the store\<close>

lemma find_map_if:
  assumes "\<And>r. P r \<Longrightarrow> P (f r)"
  shows "find P (map (\<lambda>r. if P r then f r else r) rows) = map_option f (find P rows)"
  using assms by (induction rows) auto

lemma list_ex_find: "list_ex P rows \<longleftrightarrow> find P rows \<noteq> None"
  by (auto simp: list_ex_iff find_None_iff)

lemma find_append_new:
  "\<not> list_ex P rows \<Longrightarrow> P r \<Longrightarrow> find P (rows @ [r]) = Some r"
  by (induction rows) auto

lemma matches_set_columns_size:
  "matches [(''block_id'', SqlInt b), (''site_id'', SqlInt s)]
     (set_columns [(''block_id'', SqlInt b), (''site_id'', SqlInt s), (''size'', SqlInt z)] row)"
  by (simp add: matches_def set_columns_def update_conv')

lemma size_of_set_columns:
  "col_int (Some (set_columns [(''block_id'', SqlInt b), (''site_id'', SqlInt s),
                               (''size'', SqlInt z)] row)) ''size'' = Some z"
  by (simp add: col_int_def set_columns_def update_conv')

text \<open>The statement that saves the size, on the table of sizes alone.\<close>

lemma upsert_size_table:
  fixes b s z :: int
  assumes uk: "unique_key ''block_replica_sizes'' = [''block_id'', ''site_id'']"
  defines "stmt \<equiv> InsertUpdate ''block_replica_sizes'' [''block_id'', ''site_id'', ''size'']
                     [SqlInt b, SqlInt s, SqlInt z]"
    and "key \<equiv> [(''block_id'', SqlInt b), (''site_id'', SqlInt s)]"
  shows "\<exists>row. find (matches key) (snd (mysql_query unique_key auto_id other_sql stmt db) ''block_replica_sizes'')
            = Some row \<and> col_int (Some row) ''size'' = Some z"
proof -
  let ?new = "[(''block_id'', SqlInt b), (''site_id'', SqlInt s), (''size'', SqlInt z)]"
  let ?rows = "db ''block_replica_sizes''"
  have key: "filter (\<lambda>(f, v). f \<in> set (unique_key ''block_replica_sizes'')) ?new = key"
    by (simp add: uk key_def)
  show ?thesis
  proof (cases "list_ex (matches key) ?rows")
    case True
    then obtain r where r: "find (matches key) ?rows = Some r"
      by (auto simp: list_ex_find)
    have "snd (mysql_query unique_key auto_id other_sql stmt db) ''block_replica_sizes''
        = map (\<lambda>row. if matches key row then set_columns ?new row else row) ?rows"
      using True key by (simp add: stmt_def Let_def uk)
    moreover have "find (matches key) (map (\<lambda>row. if matches key row then set_columns ?new row else row) ?rows)
        = map_option (set_columns ?new) (find (matches key) ?rows)"
      by (rule find_map_if) (simp add: key_def matches_set_columns_size)
    ultimately have "find (matches key) (snd (mysql_query unique_key auto_id other_sql stmt db) ''block_replica_sizes'')
        = Some (set_columns ?new r)"
      using r by simp
    then show ?thesis by (auto simp: size_of_set_columns)
  next
    case False
    let ?row = "if auto_id ''block_replica_sizes'' ?rows = 0 then ?new
                else (''id'', SqlInt (int (auto_id ''block_replica_sizes'' ?rows))) # ?new"
    have tbl: "snd (mysql_query unique_key auto_id other_sql stmt db) ''block_replica_sizes'' = ?rows @ [?row]"
      using False key by (simp add: stmt_def Let_def uk)
    have m: "matches key ?row" by (simp add: key_def matches_def)
    have "find (matches key) (?rows @ [?row]) = Some ?row"
      using False m by (rule find_append_new)
    moreover have "col_int (Some ?row) ''size'' = Some z" by (simp add: col_int_def)
    ultimately show ?thesis using tbl by auto
  qed
qed

lemma delete_size_table:
  "find (matches key)
     (snd (mysql_query unique_key auto_id other_sql (DeleteWhere ''block_replica_sizes'' key) db)
        ''block_replica_sizes'') = None"
  by (simp add: find_None_iff)

lemma other_table_unchanged:
  "table \<noteq> ''block_replica_sizes'' \<Longrightarrow>
   snd (mysql_query unique_key auto_id other_sql (InsertUpdate table fs vs) db) ''block_replica_sizes''
     = db ''block_replica_sizes''"
  by (simp add: Let_def)

lemma save_blockreplica_saved:
  assumes "blk_id (sbr_block br) \<noteq> 0" and "sbr_site_id br \<noteq> 0"
  shows "save_blockreplica query (db, issued) br =
     (let stmt1 = InsertUpdate ''block_replicas''
                    [''block_id'', ''site_id'', ''group_id'', ''is_complete'', ''is_custodial'',
                     ''last_update'']
                    [SqlInt (int (blk_id (sbr_block br))), SqlInt (int (sbr_site_id br)),
                     SqlInt (int (sbr_group_id br)), SqlBool (sbr_is_complete br),
                     SqlBool (sbr_is_custodial br), SqlTime (sbr_last_update br)];
          stmt2 = (if sbr_size br \<noteq> blk_size (sbr_block br)
                   then InsertUpdate ''block_replica_sizes'' [''block_id'', ''site_id'', ''size'']
                          [SqlInt (int (blk_id (sbr_block br))), SqlInt (int (sbr_site_id br)),
                           SqlInt (sbr_size br)]
                   else DeleteWhere ''block_replica_sizes''
                          [(''block_id'', SqlInt (int (blk_id (sbr_block br)))),
                           (''site_id'', SqlInt (int (sbr_site_id br)))])
      in (snd (query stmt2 (snd (query stmt1 db))), issued @ [stmt1, stmt2]))"
  using assms
  by (simp add: save_blockreplica_def insert_update_def issue_def Let_def split: prod.splits)

text \<open>
  Claim C8, as the code has it. For a block replica whose block and site have been
  saved (ids not 0), and with (block, site) the unique key of \<open>block_replica_sizes\<close>,
  after \<open>save_blockreplica\<close> the table \<open>block_replica_sizes\<close> has a row for (block,
  site) if and only if the size of the replica differs from the size of its block,
  and the joined size column is then the size of the replica. On load, the size of
  a block replica is the joined \<open>block_replica_sizes\<close> value when there is one and
  the size of the block otherwise.
\<close>

theorem save_blockreplica_size_row:
  assumes "blk_id (sbr_block br) \<noteq> 0" and "sbr_site_id br \<noteq> 0"
    and "unique_key ''block_replica_sizes'' = [''block_id'', ''site_id'']"
  shows
    "(list_ex (matches [(''block_id'', SqlInt (int (blk_id (sbr_block br)))),
                        (''site_id'', SqlInt (int (sbr_site_id br)))])
        (fst (save_blockreplica (mysql_query unique_key auto_id other_sql) (db, issued) br)
           ''block_replica_sizes'')
       \<longleftrightarrow> sbr_size br \<noteq> blk_size (sbr_block br))
     \<and> jr_size (join_row_of
          (fst (save_blockreplica (mysql_query unique_key auto_id other_sql) (db, issued) br))
          (blk_id (sbr_block br)) (sbr_site_id br))
       = (if sbr_size br \<noteq> blk_size (sbr_block br) then Some (sbr_size br) else None)
     \<and> (load_blockreplica id_block_map id_group_map site_id jr = Inr (Some r)
          \<longrightarrow> sbr_size r = (case jr_size jr of None \<Rightarrow> blk_size (sbr_block r) | Some z \<Rightarrow> z))"
proof -
  let ?key = "[(''block_id'', SqlInt (int (blk_id (sbr_block br)))),
               (''site_id'', SqlInt (int (sbr_site_id br)))]"
  let ?q = "mysql_query unique_key auto_id other_sql"
  let ?stmt1 = "InsertUpdate ''block_replicas''
                    [''block_id'', ''site_id'', ''group_id'', ''is_complete'', ''is_custodial'',
                     ''last_update'']
                    [SqlInt (int (blk_id (sbr_block br))), SqlInt (int (sbr_site_id br)),
                     SqlInt (int (sbr_group_id br)), SqlBool (sbr_is_complete br),
                     SqlBool (sbr_is_custodial br), SqlTime (sbr_last_update br)]"
  let ?db1 = "snd (?q ?stmt1 db)"
  let ?db' = "fst (save_blockreplica ?q (db, issued) br)"
  let ?found = "find (matches ?key) (?db' ''block_replica_sizes'')"
  have found: "(sbr_size br \<noteq> blk_size (sbr_block br)
        \<longrightarrow> (\<exists>row. ?found = Some row \<and> col_int (Some row) ''size'' = Some (sbr_size br)))
      \<and> (sbr_size br = blk_size (sbr_block br) \<longrightarrow> ?found = None)"
  proof (intro conjI impI)
    assume d: "sbr_size br \<noteq> blk_size (sbr_block br)"
    then have eq: "?db' = snd (?q (InsertUpdate ''block_replica_sizes''
                          [''block_id'', ''site_id'', ''size'']
                          [SqlInt (int (blk_id (sbr_block br))), SqlInt (int (sbr_site_id br)),
                           SqlInt (sbr_size br)]) ?db1)"
      by (simp add: save_blockreplica_saved [OF assms(1,2)] Let_def)
    show "\<exists>row. ?found = Some row \<and> col_int (Some row) ''size'' = Some (sbr_size br)"
      unfolding eq by (rule upsert_size_table [where unique_key = unique_key, OF assms(3)])
  next
    assume e: "sbr_size br = blk_size (sbr_block br)"
    then have eq: "?db' = snd (?q (DeleteWhere ''block_replica_sizes'' ?key) ?db1)"
      by (simp add: save_blockreplica_saved [OF assms(1,2)] Let_def)
    show "?found = None"
      unfolding eq by (rule delete_size_table)
  qed
  have "list_ex (matches ?key) (?db' ''block_replica_sizes'')
       \<longleftrightarrow> sbr_size br \<noteq> blk_size (sbr_block br)"
    using found by (auto simp: list_ex_find)
  moreover have "jr_size (join_row_of ?db' (blk_id (sbr_block br)) (sbr_site_id br))
       = (if sbr_size br \<noteq> blk_size (sbr_block br) then Some (sbr_size br) else None)"
  proof -
    have "jr_size (join_row_of ?db' (blk_id (sbr_block br)) (sbr_site_id br))
        = col_int ?found ''size''"
      by (simp add: join_row_of_def Let_def)
    also have "\<dots> = (if sbr_size br \<noteq> blk_size (sbr_block br) then Some (sbr_size br) else None)"
      using found by (auto simp: col_int_def)
    finally show ?thesis .
  qed
  moreover have "load_blockreplica id_block_map id_group_map site_id jr = Inr (Some r)
          \<longrightarrow> sbr_size r = (case jr_size jr of None \<Rightarrow> blk_size (sbr_block r) | Some z \<Rightarrow> z)"
    by (auto simp: load_blockreplica_def split: option.splits if_splits)
  ultimately show ?thesis by blast
qed

text \<open>
  A block replica of 4 bytes of an unsaved block (id 0) of 10 bytes: the sizes differ,
  and after \<open>save_blockreplica\<close> the table \<open>block_replica_sizes\<close> has no row for it; the
  call has changed nothing.
\<close>

theorem save_blockreplica_unsaved_block_counterexample:
  "sbr_size (partial_blockreplica\<lparr>sbr_block := unsaved_block\<rparr>)
     \<noteq> blk_size (sbr_block (partial_blockreplica\<lparr>sbr_block := unsaved_block\<rparr>))
   \<and> blk_id (sbr_block (partial_blockreplica\<lparr>sbr_block := unsaved_block\<rparr>)) = 0
   \<and> sbr_site_id (partial_blockreplica\<lparr>sbr_block := unsaved_block\<rparr>) = 2
   \<and> save_blockreplica (mysql_query store_unique_key store_auto_id no_other_sql)
         (empty_database, []) (partial_blockreplica\<lparr>sbr_block := unsaved_block\<rparr>)
       = (empty_database, [])
   \<and> \<not> list_ex (matches [(''block_id'', SqlInt 0), (''site_id'', SqlInt 2)])
         (fst (save_blockreplica (mysql_query store_unique_key store_auto_id no_other_sql)
                 (empty_database, []) (partial_blockreplica\<lparr>sbr_block := unsaved_block\<rparr>))
            ''block_replica_sizes'')"
  by (simp add: save_blockreplica_def partial_blockreplica_def unsaved_block_def
      empty_database_def)

lemma partial_saved:
  "fst (save_blockreplica (mysql_query store_unique_key store_auto_id no_other_sql) (empty_database, [])
          partial_blockreplica)
   = empty_database
       (''block_replicas'' :=
          [[(''block_id'', SqlInt 7), (''site_id'', SqlInt 2), (''group_id'', SqlInt 1),
            (''is_complete'', SqlBool False), (''is_custodial'', SqlBool False),
            (''last_update'', SqlTime 1500000000)]],
        ''block_replica_sizes'' :=
          [[(''block_id'', SqlInt 7), (''site_id'', SqlInt 2), (''size'', SqlInt 4)]])"
  by (simp add: save_blockreplica_def insert_update_def issue_def Let_def
      partial_blockreplica_def saved_block_def empty_database_def store_unique_key_def
      store_auto_id_def matches_def)

theorem save_blockreplica_size_row_witness:
  "list_ex (matches [(''block_id'', SqlInt 7), (''site_id'', SqlInt 2)])
     (fst (save_blockreplica (mysql_query store_unique_key store_auto_id no_other_sql) (empty_database, [])
             partial_blockreplica) ''block_replica_sizes'')
   \<and> jr_size (join_row_of
        (fst (save_blockreplica (mysql_query store_unique_key store_auto_id no_other_sql) (empty_database, [])
                partial_blockreplica)) 7 2) = Some 4
   \<and> \<not> list_ex (matches [(''block_id'', SqlInt 7), (''site_id'', SqlInt 2)])
     (fst (save_blockreplica (mysql_query store_unique_key store_auto_id no_other_sql)
             (fst (save_blockreplica (mysql_query store_unique_key store_auto_id no_other_sql)
                     (empty_database, []) partial_blockreplica), [])
             full_blockreplica) ''block_replica_sizes'')
   \<and> load_blockreplica [7 \<mapsto> saved_block] example_group_ids 2
        (join_row_of
           (fst (save_blockreplica (mysql_query store_unique_key store_auto_id no_other_sql)
                   (empty_database, []) partial_blockreplica)) 7 2)
       = Inr (Some partial_blockreplica)
   \<and> sbr_size partial_blockreplica = 4"
proof -
  let ?q = "mysql_query store_unique_key store_auto_id no_other_sql"
  let ?db' = "fst (save_blockreplica ?q (empty_database, []) partial_blockreplica)"
  have p1: "blk_id (sbr_block partial_blockreplica) \<noteq> 0"
    and p2: "sbr_site_id partial_blockreplica \<noteq> 0"
    and f1: "blk_id (sbr_block full_blockreplica) \<noteq> 0"
    and f2: "sbr_site_id full_blockreplica \<noteq> 0"
    and uk: "store_unique_key ''block_replica_sizes'' = [''block_id'', ''site_id'']"
    by (simp_all add: partial_blockreplica_def full_blockreplica_def saved_block_def
        store_unique_key_def)
  have pv: "blk_id (sbr_block partial_blockreplica) = 7" "sbr_site_id partial_blockreplica = 2"
    "sbr_size partial_blockreplica = 4" "blk_size (sbr_block partial_blockreplica) = 10"
    and fv: "blk_id (sbr_block full_blockreplica) = 7" "sbr_site_id full_blockreplica = 2"
    "sbr_size full_blockreplica = 10" "blk_size (sbr_block full_blockreplica) = 10"
    by (simp_all add: partial_blockreplica_def full_blockreplica_def saved_block_def)
  have jr: "join_row_of ?db' 7 2
      = \<lparr>jr_block_id = Some 7, jr_group_id = Some 1, jr_is_complete = Some 0,
         jr_is_custodial = Some 0, jr_size = Some 4, jr_last_update = Some 1500000000\<rparr>"
    by (simp add: partial_saved join_row_of_def col_int_def matches_def Let_def)
  have load: "load_blockreplica [7 \<mapsto> saved_block] example_group_ids 2 (join_row_of ?db' 7 2)
      = Inr (Some partial_blockreplica)"
    unfolding jr
    by (simp add: load_blockreplica_def example_group_ids_def partial_blockreplica_def)
  note part = save_blockreplica_size_row [where unique_key = store_unique_key
      and auto_id = store_auto_id and db = empty_database and issued = "[]"
      and id_block_map = "[7 \<mapsto> saved_block]" and id_group_map = example_group_ids
      and site_id = 2 and jr = "join_row_of ?db' 7 2" and r = partial_blockreplica,
      OF p1 p2 uk]
  note full = save_blockreplica_size_row [where unique_key = store_unique_key
      and auto_id = store_auto_id and db = ?db' and issued = "[]", OF f1 f2 uk]
  from part [THEN conjunct1]
  have w1: "list_ex (matches [(''block_id'', SqlInt 7), (''site_id'', SqlInt 2)])
      (?db' ''block_replica_sizes'')"
    by (simp only: pv) simp
  from part [THEN conjunct2, THEN conjunct1]
  have w2: "jr_size (join_row_of ?db' 7 2) = Some 4"
    by (simp only: pv) simp
  from full [THEN conjunct1]
  have w3: "\<not> list_ex (matches [(''block_id'', SqlInt 7), (''site_id'', SqlInt 2)])
      (fst (save_blockreplica ?q (?db', []) full_blockreplica) ''block_replica_sizes'')"
    by (simp only: fv) simp
  from part [THEN conjunct2, THEN conjunct2, THEN mp, OF load] w2
  have w5: "sbr_size partial_blockreplica = 4" by simp
  from w1 w2 w3 load w5 show ?thesis by blast
qed

section \<open>Copy requests of the enforcer\<close>

lemma make_requests_length:
  "length (make_requests target_num placed can_be_flipped site_candidates request_sites)
     \<le> max (length request_sites) (nat (target_num - int placed))"
proof (induction target_num placed can_be_flipped site_candidates request_sites
    rule: make_requests.induct)
  case (1 target_num placed can_be_flipped site_candidates request_sites)
  show ?case
  proof (cases "int (placed + length request_sites) < target_num")
    case False
    then show ?thesis by (subst make_requests.simps) simp
  next
    case more: True
    then have room: "Suc (length request_sites) \<le> nat (target_num - int placed)" by simp
    show ?thesis
    proof (cases "length can_be_flipped \<noteq> 0")
      case True
      with more 1(1) room show ?thesis
        by (subst make_requests.simps) (simp add: max_def split: if_splits)
    next
      case no_flip: False
      show ?thesis
      proof (cases "length site_candidates = 0")
        case True
        with more no_flip show ?thesis by (subst make_requests.simps) simp
      next
        case False
        with more no_flip 1(2) room show ?thesis
          by (subst make_requests.simps) (simp add: max_def split: if_splits)
      qed
    qed
  qed
qed

lemma requests_for_append_dataset:
  "requests_for d (xs @ map (\<lambda>s. (ds, s)) sites)
     = requests_for d xs @ (if d = ds then map (\<lambda>s. (ds, s)) sites else [])"
  by (induction sites rule: rev_induct) (auto simp: requests_for_def)

lemma visit_replica_inv:
  assumes inv: "requests_inv n st" and cap: "target_num \<le> int n"
  shows "requests_inv n (visit_replica shuffle to_list write_rrds inventory rule
           destination_sites target_num sp_replicas st replica)"
proof -
  let ?ds = "er_dataset replica"
  let ?st1 = "st\<lparr>checked_datasets := ?ds # checked_datasets st\<rparr>"
  have inv1: "requests_inv n ?st1"
    using inv by (simp add: requests_inv_def)
  have appended: "requests_inv n (?st1\<lparr>product := product ?st1 @ map (\<lambda>s. (?ds, s)) reqs\<rparr>)"
    if new: "?ds \<notin> set (checked_datasets st)" and len: "length reqs \<le> n" for reqs
  proof -
    from inv new have none: "requests_for ?ds (product st) = []"
      by (simp add: requests_inv_def)
    show ?thesis
      unfolding requests_inv_def
    proof (intro conjI allI impI)
      fix d
      show "length (requests_for d
          (product (?st1\<lparr>product := product ?st1 @ map (\<lambda>s. (?ds, s)) reqs\<rparr>))) \<le> n"
      proof (cases "d = ?ds")
        case True
        with none len show ?thesis by (simp add: requests_for_append_dataset)
      next
        case False
        with inv show ?thesis by (simp add: requests_for_append_dataset requests_inv_def)
      qed
    next
      fix d
      assume "d \<notin> set (checked_datasets
          (?st1\<lparr>product := product ?st1 @ map (\<lambda>s. (?ds, s)) reqs\<rparr>))"
      then have "d \<noteq> ?ds" and "d \<notin> set (checked_datasets st)" by auto
      with inv show "requests_for d
          (product (?st1\<lparr>product := product ?st1 @ map (\<lambda>s. (?ds, s)) reqs\<rparr>)) = []"
        by (simp add: requests_for_append_dataset requests_inv_def)
    qed
  qed
  have bound: "length (make_requests target_num placed flip cands []) \<le> n" for placed flip cands
  proof -
    have "length (make_requests target_num placed flip cands [])
        \<le> max (length ([] :: string list)) (nat (target_num - int placed))"
      by (rule make_requests_length)
    also have "\<dots> \<le> n" using cap by simp
    finally show ?thesis .
  qed
  show ?thesis
    using inv inv1 appended bound
    by (auto simp: visit_replica_def Let_def split: prod.splits)
qed

lemma foldl_visit_replica_inv:
  assumes "requests_inv n st" and "target_num \<le> int n"
  shows "requests_inv n (foldl (visit_replica shuffle to_list write_rrds inventory rule
           destination_sites target_num sp_replicas) st replicas)"
  using assms
proof (induction replicas arbitrary: st)
  case Nil
  then show ?case by simp
next
  case (Cons r rs)
  from Cons.prems have "requests_inv n (visit_replica shuffle to_list write_rrds inventory rule
           destination_sites target_num sp_replicas st r)"
    by (rule visit_replica_inv)
  with Cons.IH Cons.prems(2) show ?case by simp
qed

lemma foldl_sources_inv:
  assumes "requests_inv n st" and "target_num \<le> int n"
  shows "requests_inv n
    (foldl (\<lambda>st source.
              foldl (visit_replica shuffle to_list write_rrds inventory rule destination_sites
                       target_num (inv_partition_replicas inventory source))
                    st (map fst (inv_partition_replicas inventory source)))
           st sources)"
  using assms
proof (induction sources arbitrary: st)
  case Nil
  then show ?case by simp
next
  case (Cons source rest)
  from Cons.prems have "requests_inv n
      (foldl (visit_replica shuffle to_list write_rrds inventory rule destination_sites
                target_num (inv_partition_replicas inventory source))
             st (map fst (inv_partition_replicas inventory source)))"
    by (rule foldl_visit_replica_inv)
  with Cons.IH Cons.prems(2) show ?case by simp
qed

lemma rule_target_num_capped:
  "rule_target_num rule inventory
     \<le> int (card (get_sites (rule_destination_sites rule) inventory))"
  by (simp add: rule_target_num_def Let_def)

text \<open>
  Claim C10. The target of a rule is \<open>num_copies\<close> capped at the number of sites that
  match the rule's destination conditions, and for every dataset the copy requests
  that the rule emits are at most as many as those sites.
\<close>

theorem rule_requests_bounded:
  "rule_target_num rule inventory
     = min (rule_num_copies rule)
           (int (card (get_sites (rule_destination_sites rule) inventory)))
   \<and> length (requests_for d (rule_requests shuffle to_list write_rrds inventory rule))
     \<le> card (get_sites (rule_destination_sites rule) inventory)"
proof
  show "rule_target_num rule inventory
     = min (rule_num_copies rule)
           (int (card (get_sites (rule_destination_sites rule) inventory)))"
    by (simp add: rule_target_num_def Let_def min_def)
next
  let ?n = "card (get_sites (rule_destination_sites rule) inventory)"
  have "requests_inv ?n \<lparr>checked_datasets = [], product = []\<rparr>"
    by (simp add: requests_inv_def requests_for_def)
  then have "requests_inv ?n
    (foldl (\<lambda>st source.
              foldl (visit_replica shuffle to_list write_rrds inventory rule
                       (get_sites (rule_destination_sites rule) inventory)
                       (rule_target_num rule inventory) (inv_partition_replicas inventory source))
                    st (map fst (inv_partition_replicas inventory source)))
           \<lparr>checked_datasets = [], product = []\<rparr>
           (filter (\<lambda>s. list_ex (\<lambda>condition. condition s) (rule_source_sites rule))
                   (inv_sites inventory)))"
    using rule_target_num_capped by (rule foldl_sources_inv)
  then show "length (requests_for d (rule_requests shuffle to_list write_rrds inventory rule))
     \<le> ?n"
    by (simp add: rule_requests_def Let_def requests_inv_def)
qed

theorem rule_requests_bounded_witness:
  "rule_requests id sorted_list_of_set False example_inventory example_rule
     = [(''/X/Y/Z'', ''T2_c''), (''/X/Y/Z'', ''T2_b'')]
   \<and> rule_target_num example_rule example_inventory = 2
   \<and> length (requests_for ''/X/Y/Z''
         (rule_requests id sorted_list_of_set False example_inventory example_rule))
     \<le> card (get_sites (rule_destination_sites example_rule) example_inventory)"
proof (intro conjI)
  show "rule_requests id sorted_list_of_set False example_inventory example_rule
     = [(''/X/Y/Z'', ''T2_c''), (''/X/Y/Z'', ''T2_b'')]"
    by code_simp
  show "rule_target_num example_rule example_inventory = 2"
    by code_simp
  from rule_requests_bounded [where rule = example_rule and inventory = example_inventory
      and d = "''/X/Y/Z''" and shuffle = id and to_list = sorted_list_of_set
      and write_rrds = False, THEN conjunct2]
  show "length (requests_for ''/X/Y/Z''
         (rule_requests id sorted_list_of_set False example_inventory example_rule))
     \<le> card (get_sites (rule_destination_sites example_rule) example_inventory)" .
qed

end
